theory Spec2Isabelle
  imports Main "HOL-Library.AList"
begin

section \<open>Data model\<close>

text \<open>
  The repository holds the route module twice: \<^verbatim>\<open>src/tycRoutes.js\<close> (handlers that
  work on the in-memory map only) and, after the middleware, \<^verbatim>\<open>src/internalAuth.js\<close>
  (handlers that fall back to the Postgres table and write to it). \<^verbatim>\<open>sendWebhook\<close>,
  the creation handler and the cron handler are the same text in both files and are
  embedded once; the read and accept handlers are embedded once per file, with the file
  name as prefix.

  Instants (the ISO-8601 strings produced by \<^verbatim>\<open>toISOString\<close>, and the Postgres
  timestamps) are represented by their epoch milliseconds, so that
  \<^verbatim>\<open>new Date(solicitud.expiresAt) < ahora\<close> is \<open><\<close> on \<open>int\<close>.
  Accented letters of the message literals are written without the accent; of a console
  line the message is kept, without its emoji and without the values printed after it.

  A handler runs from its request to its answer before the next one starts: the
  interleaving of two requests at an \<^verbatim>\<open>await\<close> is not part of the model.
\<close>

datatype estado = CREADA | ABIERTA | ACEPTADA | EXPIRADA

fun estado_str :: "estado \<Rightarrow> string" where
  "estado_str CREADA = ''CREADA''"
| "estado_str ABIERTA = ''ABIERTA''"
| "estado_str ACEPTADA = ''ACEPTADA''"
| "estado_str EXPIRADA = ''EXPIRADA''"

text \<open>JavaScript values that travel as JSON; \<open>JIso t\<close> is the ISO string of instant \<open>t\<close>.\<close>

datatype json =
    JNull
  | JBool bool
  | JNum int
  | JStr string
  | JIso int
  | JObj "(string \<times> json) list"

text \<open>\<^verbatim>\<open>!v\<close> of JavaScript.\<close>

fun falsy :: "json \<Rightarrow> bool" where
  "falsy JNull = True"
| "falsy (JBool b) = (\<not> b)"
| "falsy (JNum n) = (n = 0)"
| "falsy (JStr s) = (s = [])"
| "falsy (JIso t) = False"
| "falsy (JObj kvs) = False"

text \<open>\<^verbatim>\<open>a || b\<close> on values that are a string, \<^verbatim>\<open>null\<close> or \<^verbatim>\<open>undefined\<close>.\<close>

definition or_str :: "string option \<Rightarrow> string option \<Rightarrow> string option" where
  "or_str a b = (case a of None \<Rightarrow> b | Some s \<Rightarrow> if s = [] then b else Some s)"

text \<open>\<^verbatim>\<open>v || null\<close> for an instant: ISO strings are never empty.\<close>

definition iso_or_null :: "int option \<Rightarrow> json" where
  "iso_or_null v = (case v of None \<Rightarrow> JNull | Some t \<Rightarrow> JIso t)"

text \<open>A row of the table \<^verbatim>\<open>tyc_solicitudes\<close> (columns as the SQL statements name them).\<close>

record row =
  tyc_solicitud_id :: string
  precliente_id :: json
  token_col :: string
  token_hash :: string
  canal_col :: json
  webhook_url :: json
  metadata_col :: json
  estado_col :: estado
  created_at :: int
  expires_at :: int
  opened_at :: "int option"
  accepted_at :: "int option"
  accepted_ip :: "string option"

text \<open>The object kept in the in-memory map \<^verbatim>\<open>solicitudesTyC\<close>.\<close>

record solicitud =
  tycSolicitudId :: string
  preclienteId :: json
  canal :: json
  token :: string
  estado :: estado
  createdAt :: int
  expiresAt :: int
  webhookUrl :: json
  metadata :: json
  openedAt :: "int option"
  acceptedAt :: "int option"
  acceptedIp :: "string option"
  acceptedUserAgent :: "string option"

text \<open>One call of \<^verbatim>\<open>axios.post(url, data, {headers, timeout})\<close>.\<close>

record post =
  url :: json
  data :: json
  headers :: "(string \<times> string) list"
  timeout :: nat

text \<open>Platform functions the code calls (\<^verbatim>\<open>crypto\<close>, \<^verbatim>\<open>JSON\<close>); parameters of the model.\<close>

record plat =
  hmac_sha256 :: "string \<Rightarrow> string \<Rightarrow> string"
  sha256 :: "string \<Rightarrow> string"
  JSON_stringify :: "json \<Rightarrow> string"

text \<open>\<^verbatim>\<open>process.env\<close>.\<close>

record env =
  WEBHOOK_SECRET :: "string option"
  TYC_BASE_URL :: "string option"
  PORT :: "string option"
  INTERNAL_API_SECRET :: "string option"

text \<open>
  The state of the process and of what it talks to: the map \<^verbatim>\<open>solicitudesTyC\<close> (in
  insertion order, as a JavaScript \<^verbatim>\<open>Map\<close>), the table, the outcome of the coming
  \<^verbatim>\<open>pool.query\<close> calls (\<open>True\<close>: the call throws; the empty list: every call
  succeeds), the webhook requests issued so far, and the console.
\<close>

record world =
  solicitudesTyC :: "(string \<times> solicitud) list"
  tyc_solicitudes :: "row list"
  faults :: "bool list"
  enviados :: "post list"
  consola :: "string list"

datatype html =
    Enlace_invalido
  | Enlace_expirado
  | Error_interno
  | Pagina json int string "bool option"

datatype response =
    Send nat html
  | SendJson nat "(string \<times> json) list"

text \<open>What the accept handlers read of the HTTP request.\<close>

record req =
  x_forwarded_for :: "string option"
  ip :: "string option"
  remoteAddress :: "string option"
  user_agent :: "string option"

section \<open>Cache, console and table\<close>

definition cache_get :: "string \<Rightarrow> world \<Rightarrow> solicitud option" where
  "cache_get tok w = map_of (solicitudesTyC w) tok"

definition cache_set :: "string \<Rightarrow> solicitud \<Rightarrow> world \<Rightarrow> world" where
  "cache_set tok s w = w\<lparr>solicitudesTyC := AList.update tok s (solicitudesTyC w)\<rparr>"

definition console :: "string \<Rightarrow> world \<Rightarrow> world" where
  "console msg w = w\<lparr>consola := consola w @ [msg]\<rparr>"

datatype db_error = Query_failed

text \<open>
  Every \<^verbatim>\<open>pool.query\<close> consumes one entry of the schedule; a call that throws
  leaves the table as it was.
\<close>

definition next_query_fails :: "world \<Rightarrow> bool" where
  "next_query_fails w = (case faults w of [] \<Rightarrow> False | f # fs \<Rightarrow> f)"

definition pool_query :: "world \<Rightarrow> bool \<times> world" where
  "pool_query w = (next_query_fails w, w\<lparr>faults := tl (faults w)\<rparr>)"

text \<open>\<^verbatim>\<open>INSERT INTO tyc_solicitudes (...) VALUES (...)\<close>\<close>

definition sql_insert :: "row \<Rightarrow> world \<Rightarrow> (db_error + unit) \<times> world" where
  "sql_insert r w =
     (case pool_query w of
        (failed, w') \<Rightarrow>
          if failed then (Inl Query_failed, w')
          else (Inr (), w'\<lparr>tyc_solicitudes := tyc_solicitudes w' @ [r]\<rparr>))"

text \<open>
  \<^verbatim>\<open>SELECT ... FROM tyc_solicitudes WHERE token = $1 LIMIT 1\<close>; of several rows with
  the token, the first of the table is taken.
\<close>

definition sql_select :: "string \<Rightarrow> world \<Rightarrow> (db_error + row option) \<times> world" where
  "sql_select tok w =
     (case pool_query w of
        (failed, w') \<Rightarrow>
          if failed then (Inl Query_failed, w')
          else (Inr (find (\<lambda>r. token_col r = tok) (tyc_solicitudes w')), w'))"

text \<open>\<^verbatim>\<open>UPDATE tyc_solicitudes SET estado = $2 WHERE token = $1\<close>\<close>

definition set_estado :: "string \<Rightarrow> estado \<Rightarrow> row \<Rightarrow> row" where
  "set_estado tok e r = (if token_col r = tok then r\<lparr>estado_col := e\<rparr> else r)"

definition sql_update_estado :: "string \<Rightarrow> estado \<Rightarrow> world \<Rightarrow> (db_error + unit) \<times> world" where
  "sql_update_estado tok e w =
     (case pool_query w of
        (failed, w') \<Rightarrow>
          if failed then (Inl Query_failed, w')
          else (Inr (), w'\<lparr>tyc_solicitudes := map (set_estado tok e) (tyc_solicitudes w')\<rparr>))"

text \<open>
  \<^verbatim>\<open>UPDATE tyc_solicitudes SET opened_at = COALESCE(opened_at, NOW()),
  estado = CASE WHEN estado = $2 THEN $3 ELSE estado END WHERE token = $1\<close>,
  called with \<^verbatim>\<open>[token, CREADA, ABIERTA]\<close>; \<open>db_now\<close> is the table's \<^verbatim>\<open>NOW()\<close>.
\<close>

definition set_opened :: "string \<Rightarrow> int \<Rightarrow> row \<Rightarrow> row" where
  "set_opened tok db_now r =
     (if token_col r = tok
      then r\<lparr>opened_at := (case opened_at r of None \<Rightarrow> Some db_now | Some t \<Rightarrow> Some t),
             estado_col := (if estado_col r = CREADA then ABIERTA else estado_col r)\<rparr>
      else r)"

definition sql_update_opened :: "string \<Rightarrow> int \<Rightarrow> world \<Rightarrow> (db_error + unit) \<times> world" where
  "sql_update_opened tok db_now w =
     (case pool_query w of
        (failed, w') \<Rightarrow>
          if failed then (Inl Query_failed, w')
          else (Inr (), w'\<lparr>tyc_solicitudes := map (set_opened tok db_now) (tyc_solicitudes w')\<rparr>))"

text \<open>
  \<^verbatim>\<open>UPDATE tyc_solicitudes SET accepted_at = NOW(), accepted_ip = $2, estado = $3
  WHERE token = $1 AND accepted_at IS NULL RETURNING accepted_at\<close>; the result is the
  list of returned \<^verbatim>\<open>accepted_at\<close> values, one per row written.
\<close>

definition accept_matches :: "string \<Rightarrow> row \<Rightarrow> bool" where
  "accept_matches tok r = (token_col r = tok \<and> accepted_at r = None)"

definition set_accepted :: "string \<Rightarrow> string option \<Rightarrow> estado \<Rightarrow> int \<Rightarrow> row \<Rightarrow> row" where
  "set_accepted tok ip_arg e db_now r =
     (if accept_matches tok r
      then r\<lparr>accepted_at := Some db_now, accepted_ip := ip_arg, estado_col := e\<rparr>
      else r)"

definition sql_update_accepted ::
  "string \<Rightarrow> string option \<Rightarrow> estado \<Rightarrow> int \<Rightarrow> world \<Rightarrow> (db_error + int list) \<times> world" where
  "sql_update_accepted tok ip_arg e db_now w =
     (case pool_query w of
        (failed, w') \<Rightarrow>
          if failed then (Inl Query_failed, w')
          else
            (Inr (map (\<lambda>r. db_now) (filter (accept_matches tok) (tyc_solicitudes w'))),
             w'\<lparr>tyc_solicitudes := map (set_accepted tok ip_arg e db_now) (tyc_solicitudes w')\<rparr>))"

section \<open>sendWebhook\<close>

text \<open>
  \<^verbatim>\<open>sendWebhook(solicitud, evento)\<close>, the same in both files. The function builds the
  payload and the signature and issues the POST before its first \<^verbatim>\<open>await\<close>; the
  outcome of the delivery is only written to the console and is not part of the state.
\<close>

definition webhook_payload :: "solicitud \<Rightarrow> string \<Rightarrow> json" where
  "webhook_payload s evento =
     JObj [(''evento'', JStr evento),
           (''preclienteId'', preclienteId s),
           (''tycSolicitudId'', JStr (tycSolicitudId s)),
           (''estado'', JStr (estado_str (estado s))),
           (''createdAt'', JIso (createdAt s)),
           (''expiresAt'', JIso (expiresAt s)),
           (''openedAt'', iso_or_null (openedAt s)),
           (''acceptedAt'', iso_or_null (acceptedAt s))]"

definition webhook_secret :: "env \<Rightarrow> string" where
  "webhook_secret E =
     (case WEBHOOK_SECRET E of
        None \<Rightarrow> ''default_secret''
      | Some k \<Rightarrow> if k = [] then ''default_secret'' else k)"

definition webhook_post :: "plat \<Rightarrow> env \<Rightarrow> solicitud \<Rightarrow> string \<Rightarrow> post" where
  "webhook_post P E s evento =
     (let payload = webhook_payload s evento;
          secret = webhook_secret E;
          bodyStr = JSON_stringify P payload;
          signature = hmac_sha256 P secret bodyStr
      in \<lparr>url = webhookUrl s,
          data = payload,
          headers = [(''Content-Type'', ''application/json''),
                     (''X-AMA-Signature'', signature),
                     (''X-AMA-Event'', evento)],
          timeout = 5000\<rparr>)"

definition sendWebhook :: "plat \<Rightarrow> env \<Rightarrow> solicitud \<Rightarrow> string \<Rightarrow> world \<Rightarrow> world" where
  "sendWebhook P E s evento w =
     (if falsy (webhookUrl s)
      then console ''No hay webhookUrl configurado en la solicitud, no se envia nada.'' w
      else w\<lparr>enviados := enviados w @ [webhook_post P E s evento]\<rparr>)"

section \<open>Handlers of \<^verbatim>\<open>src/internalAuth.js\<close>\<close>

text \<open>
  The load step, written inline in \<^verbatim>\<open>GET /tyc/:token\<close> (lines 262--313) and in
  \<^verbatim>\<open>POST /api/tyc/:token/aceptar\<close> (lines 665--713): the map first, then the table,
  and the row found is put into the map. The two object literals differ only in
  \<^verbatim>\<open>acceptedUserAgent\<close> (absent in one, \<^verbatim>\<open>null\<close> in the other).
\<close>

definition solicitud_of_row :: "row \<Rightarrow> solicitud" where
  "solicitud_of_row r =
     \<lparr>tycSolicitudId = tyc_solicitud_id r,
      preclienteId = precliente_id r,
      canal = canal_col r,
      token = token_col r,
      estado = estado_col r,
      createdAt = created_at r,
      expiresAt = expires_at r,
      webhookUrl = webhook_url r,
      metadata = (if falsy (metadata_col r) then JObj [] else metadata_col r),
      openedAt = opened_at r,
      acceptedAt = accepted_at r,
      acceptedIp = or_str (accepted_ip r) None,
      acceptedUserAgent = None\<rparr>"

definition internalAuth_cargar :: "string \<Rightarrow> world \<Rightarrow> (db_error + solicitud option) \<times> world" where
  "internalAuth_cargar tok w =
     (case cache_get tok w of
        Some s \<Rightarrow> (Inr (Some s), w)
      | None \<Rightarrow>
          (case sql_select tok w of
             (Inl e, w1) \<Rightarrow> (Inl e, w1)
           | (Inr None, w1) \<Rightarrow> (Inr None, w1)
           | (Inr (Some r), w1) \<Rightarrow>
               (Inr (Some (solicitud_of_row r)), cache_set tok (solicitud_of_row r) w1)))"

text \<open>
  The body of the expiry branch before its \<^verbatim>\<open>return\<close> (lines 325--348 and 720--742);
  \<open>msg\<close> is the console message of the \<^verbatim>\<open>catch\<close> around the UPDATE.
\<close>

definition internalAuth_expirar ::
  "plat \<Rightarrow> env \<Rightarrow> string \<Rightarrow> solicitud \<Rightarrow> string \<Rightarrow> world \<Rightarrow> world" where
  "internalAuth_expirar P E tok s msg w =
     (if estado s \<noteq> EXPIRADA
      then
        (let s' = s\<lparr>estado := EXPIRADA\<rparr>;
             w1 = cache_set tok s' w;
             w2 = (case sql_update_estado tok EXPIRADA w1 of
                     (Inl e, w') \<Rightarrow> console msg w'
                   | (Inr u, w') \<Rightarrow> w')
         in sendWebhook P E s' ''TYC_EXPIRADA'' w2)
      else w)"

text \<open>
  \<^verbatim>\<open>GET /tyc/:token\<close>. \<open>ahora\<close> is \<^verbatim>\<open>new Date()\<close> of line 320, \<open>ahora_iso\<close> the
  \<^verbatim>\<open>nowIso()\<close> of line 358, \<open>db_now\<close> the table's clock. Of the page only the values
  interpolated into it are kept: \<^verbatim>\<open>preclienteId\<close>, the expiry instant, the token and
  \<^verbatim>\<open>ALREADY_ACCEPTED\<close>.
\<close>

definition internalAuth_get_tyc ::
  "plat \<Rightarrow> env \<Rightarrow> int \<Rightarrow> int \<Rightarrow> int \<Rightarrow> string \<Rightarrow> world \<Rightarrow> response \<times> world" where
  "internalAuth_get_tyc P E ahora ahora_iso db_now tok w =
     (case internalAuth_cargar tok w of
        (Inl e, w1) \<Rightarrow>
          (Send 500 Error_interno, console ''[TyC] Error consultando BD en GET /tyc/:token:'' w1)
      | (Inr None, w1) \<Rightarrow> (Send 404 Enlace_invalido, w1)
      | (Inr (Some s), w1) \<Rightarrow>
          if expiresAt s < ahora \<and> estado s \<noteq> ACEPTADA
          then (Send 410 Enlace_expirado,
                internalAuth_expirar P E tok s
                  ''[TyC] Error actualizando estado EXPIRADA en BD:'' w1)
          else
            (let s1 = (if estado s = CREADA
                       then s\<lparr>estado := ABIERTA, openedAt := Some ahora_iso\<rparr> else s);
                 w2 = (if estado s = CREADA then cache_set tok s1 w1 else w1);
                 w3 = (case sql_update_opened tok db_now w2 of
                         (Inl e, w') \<Rightarrow>
                           console ''[TyC] Error actualizando opened_at/estado en BD:'' w'
                       | (Inr u, w') \<Rightarrow> w')
             in (Send 200 (Pagina (preclienteId s1) (expiresAt s1) tok
                             (Some (estado s1 = ACEPTADA))), w3)))"

text \<open>
  \<^verbatim>\<open>getClientIp\<close> (lines 656--662). Node joins repeated \<^verbatim>\<open>x-forwarded-for\<close> headers
  into one string, so the array case does not arise. Node decodes a header value as
  Latin-1, one character per byte, so a \<open>char\<close> is one code unit of the JavaScript string;
  of the white space \<^verbatim>\<open>String.prototype.trim\<close> strips, the seven characters below are
  the ones under 256.
\<close>

definition is_space :: "char \<Rightarrow> bool" where
  "is_space c =
     (c \<in> set [CHR '' '', CHR 0x09, CHR 0x0A, CHR 0x0B, CHR 0x0C, CHR 0x0D, CHR 0xA0])"

definition trim :: "string \<Rightarrow> string" where
  "trim s = rev (dropWhile is_space (rev (dropWhile is_space s)))"

definition startsWith :: "string \<Rightarrow> string \<Rightarrow> bool" where
  "startsWith s p = (take (length p) s = p)"

definition getClientIp :: "req \<Rightarrow> string option" where
  "getClientIp r =
     (let xf = x_forwarded_for r;
          ip0 = (case or_str xf None of
                   None \<Rightarrow> None
                 | Some x \<Rightarrow> Some (trim (takeWhile (\<lambda>c. c \<noteq> CHR '','') x)));
          ip1 = or_str ip0 (or_str (ip r) (or_str (remoteAddress r) None))
      in case ip1 of
           None \<Rightarrow> None
         | Some a \<Rightarrow> if startsWith a ''::ffff:'' then Some (drop 7 a) else Some a)"

definition str_or_null :: "string option \<Rightarrow> json" where
  "str_or_null v = (case v of None \<Rightarrow> JNull | Some s \<Rightarrow> JStr s)"

text \<open>
  \<^verbatim>\<open>POST /api/tyc/:token/aceptar\<close>. The whole handler is inside one
  \<^verbatim>\<open>try\<close>, whose \<^verbatim>\<open>catch\<close> answers 500: the SELECT of the load step and the
  conditional UPDATE throw into it. \<open>ahora_iso\<close> is the \<^verbatim>\<open>nowIso()\<close> of line 779.
\<close>

definition error_interno_500 :: "world \<Rightarrow> response \<times> world" where
  "error_interno_500 w =
     (SendJson 500 [(''ok'', JBool False), (''error'', JStr ''Error interno'')],
      console ''[TyC] Error en POST /api/tyc/:token/aceptar:'' w)"

definition internalAuth_post_aceptar ::
  "plat \<Rightarrow> env \<Rightarrow> int \<Rightarrow> int \<Rightarrow> int \<Rightarrow> string \<Rightarrow> req \<Rightarrow> world \<Rightarrow> response \<times> world" where
  "internalAuth_post_aceptar P E ahora ahora_iso db_now tok r w =
     (case internalAuth_cargar tok w of
        (Inl e, w1) \<Rightarrow> error_interno_500 w1
      | (Inr None, w1) \<Rightarrow>
          (SendJson 404 [(''ok'', JBool False), (''error'', JStr ''Solicitud no encontrada'')], w1)
      | (Inr (Some s), w1) \<Rightarrow>
          if expiresAt s < ahora \<and> estado s \<noteq> ACEPTADA
          then (SendJson 410 [(''ok'', JBool False),
                              (''error'', JStr ''La URL ya expiro. Solicita una nueva.'')],
                internalAuth_expirar P E tok s
                  ''[TyC] Error actualizando EXPIRADA en BD (POST /aceptar):'' w1)
          else if estado s = ACEPTADA \<or> acceptedAt s \<noteq> None
          then (SendJson 200 [(''ok'', JBool True),
                              (''mensaje'', JStr ''Esta solicitud ya habia sido aceptada previamente.''),
                              (''preclienteId'', preclienteId s),
                              (''tycSolicitudId'', JStr (tycSolicitudId s)),
                              (''acceptedAt'', iso_or_null (acceptedAt s))], w1)
          else
            (let ip_v = getClientIp r;
                 ua = or_str (user_agent r) None
             in case sql_update_accepted tok ip_v ACEPTADA db_now w1 of
                  (Inl e, w2) \<Rightarrow> error_interno_500 w2
                | (Inr returned, w2) \<Rightarrow>
                    (let acceptedAtIso = (case returned of [] \<Rightarrow> ahora_iso | t # ts \<Rightarrow> t);
                         s' = s\<lparr>estado := ACEPTADA, acceptedAt := Some acceptedAtIso,
                                acceptedIp := ip_v, acceptedUserAgent := ua\<rparr>;
                         w3 = cache_set tok s' w2;
                         w4 = console ''Solicitud TyC aceptada:'' w3;
                         w5 = sendWebhook P E s' ''TYC_ACEPTADA'' w4
                     in (SendJson 200 [(''ok'', JBool True),
                                       (''mensaje'', JStr ''Aceptacion registrada''),
                                       (''preclienteId'', preclienteId s'),
                                       (''tycSolicitudId'', JStr (tycSolicitudId s')),
                                       (''acceptedAt'', iso_or_null (acceptedAt s')),
                                       (''acceptedIp'', str_or_null (acceptedIp s'))], w5))))"

section \<open>Handlers of \<^verbatim>\<open>src/tycRoutes.js\<close>\<close>

text \<open>
  \<^verbatim>\<open>GET /tyc/:token\<close> (lines 222--440): the map only, and no test for a record that is
  already \<^verbatim>\<open>EXPIRADA\<close>. The page of this file has no \<^verbatim>\<open>ALREADY_ACCEPTED\<close>; the current
  year it prints is left out.
\<close>

definition tycRoutes_get_tyc ::
  "plat \<Rightarrow> env \<Rightarrow> int \<Rightarrow> int \<Rightarrow> string \<Rightarrow> world \<Rightarrow> response \<times> world" where
  "tycRoutes_get_tyc P E ahora ahora_iso tok w =
     (case cache_get tok w of
        None \<Rightarrow> (Send 404 Enlace_invalido, w)
      | Some s \<Rightarrow>
          if expiresAt s < ahora \<and> estado s \<noteq> ACEPTADA
          then
            (let s' = s\<lparr>estado := EXPIRADA\<rparr>;
                 w1 = cache_set tok s' w;
                 w2 = sendWebhook P E s' ''TYC_EXPIRADA'' w1
             in (Send 410 Enlace_expirado, w2))
          else
            (let s1 = (if estado s = CREADA
                       then s\<lparr>estado := ABIERTA, openedAt := Some ahora_iso\<rparr> else s);
                 w1 = (if estado s = CREADA then cache_set tok s1 w else w)
             in (Send 200 (Pagina (preclienteId s1) (expiresAt s1) tok None), w1)))"

text \<open>\<^verbatim>\<open>POST /api/tyc/:token/aceptar\<close> (lines 451--519).\<close>

definition tycRoutes_post_aceptar ::
  "plat \<Rightarrow> env \<Rightarrow> int \<Rightarrow> int \<Rightarrow> string \<Rightarrow> req \<Rightarrow> world \<Rightarrow> response \<times> world" where
  "tycRoutes_post_aceptar P E ahora ahora_iso tok r w =
     (case cache_get tok w of
        None \<Rightarrow>
          (SendJson 404 [(''ok'', JBool False), (''error'', JStr ''Solicitud no encontrada'')], w)
      | Some s \<Rightarrow>
          if expiresAt s < ahora \<and> estado s \<noteq> ACEPTADA
          then
            (let s' = s\<lparr>estado := EXPIRADA\<rparr>;
                 w1 = cache_set tok s' w;
                 w2 = sendWebhook P E s' ''TYC_EXPIRADA'' w1
             in (SendJson 410 [(''ok'', JBool False),
                               (''error'', JStr ''La URL ya expiro. Solicita una nueva.'')], w2))
          else if estado s = ACEPTADA
          then (SendJson 200 [(''ok'', JBool True),
                              (''mensaje'', JStr ''Esta solicitud ya habia sido aceptada previamente.''),
                              (''preclienteId'', preclienteId s),
                              (''tycSolicitudId'', JStr (tycSolicitudId s))], w)
          else
            (let s' = s\<lparr>estado := ACEPTADA, acceptedAt := Some ahora_iso,
                        acceptedIp := or_str (x_forwarded_for r) (or_str (remoteAddress r) None),
                        acceptedUserAgent := or_str (user_agent r) None\<rparr>;
                 w1 = cache_set tok s' w;
                 w2 = console ''Solicitud TyC aceptada:'' w1;
                 w3 = sendWebhook P E s' ''TYC_ACEPTADA'' w2
             in (SendJson 200 [(''ok'', JBool True),
                               (''mensaje'', JStr ''Aceptacion registrada''),
                               (''preclienteId'', preclienteId s'),
                               (''tycSolicitudId'', JStr (tycSolicitudId s'))], w3)))"

section \<open>Handlers that are the same in both files\<close>

text \<open>\<^verbatim>\<open>requireInternalSecret\<close> (\<^verbatim>\<open>src/internalAuth.js\<close>, lines 9--32).\<close>

definition requireInternalSecret ::
  "env \<Rightarrow> string option \<Rightarrow> (world \<Rightarrow> response \<times> world) \<Rightarrow> world \<Rightarrow> response \<times> world" where
  "requireInternalSecret E incoming next w =
     (case or_str (INTERNAL_API_SECRET E) None of
        None \<Rightarrow>
          (SendJson 500 [(''ok'', JBool False),
                         (''error'', JStr ''INTERNAL_API_SECRET no esta configurada en el servidor'')],
           console ''INTERNAL_API_SECRET no esta configurada en las variables de entorno.'' w)
      | Some configuredSecret \<Rightarrow>
          if or_str incoming None = None \<or> incoming \<noteq> Some configuredSecret
          then (SendJson 401 [(''ok'', JBool False), (''error'', JStr ''No autorizado'')],
                console ''Intento de acceso no autorizado a endpoint interno.'' w)
          else next w)"

text \<open>
  \<^verbatim>\<open>POST /api/tyc/cron/check-expired\<close>: the loop over
  \<^verbatim>\<open>Array.from(solicitudesTyC.keys())\<close>.
\<close>

fun check_expired_loop ::
  "plat \<Rightarrow> env \<Rightarrow> int \<Rightarrow> string list \<Rightarrow> nat \<Rightarrow> world \<Rightarrow> nat \<times> world" where
  "check_expired_loop P E ahora [] contador w = (contador, w)"
| "check_expired_loop P E ahora (tok # tokens) contador w =
     (case cache_get tok w of
        None \<Rightarrow> check_expired_loop P E ahora tokens contador w
      | Some s \<Rightarrow>
          if (estado s = CREADA \<or> estado s = ABIERTA) \<and> expiresAt s < ahora
          then check_expired_loop P E ahora tokens (contador + 1)
                 (sendWebhook P E (s\<lparr>estado := EXPIRADA\<rparr>) ''TYC_EXPIRADA''
                    (cache_set tok (s\<lparr>estado := EXPIRADA\<rparr>) w))
          else check_expired_loop P E ahora tokens contador w)"

definition check_expired :: "plat \<Rightarrow> env \<Rightarrow> int \<Rightarrow> world \<Rightarrow> response \<times> world" where
  "check_expired P E ahora w =
     (case check_expired_loop P E ahora (map fst (solicitudesTyC w)) 0 w of
        (contador, w') \<Rightarrow>
          (SendJson 200 [(''ok'', JBool True), (''expiradas'', JNum (int contador))], w'))"

definition post_check_expired ::
  "plat \<Rightarrow> env \<Rightarrow> string option \<Rightarrow> int \<Rightarrow> world \<Rightarrow> response \<times> world" where
  "post_check_expired P E incoming ahora w =
     requireInternalSecret E incoming (check_expired P E ahora) w"

text \<open>
  \<^verbatim>\<open>POST /api/tyc/solicitudes\<close>. \<open>body\<close> is \<^verbatim>\<open>req.body || {}\<close>; a missing key reads
  as \<^verbatim>\<open>undefined\<close>, which the handler treats as \<^verbatim>\<open>null\<close>. \<open>ahora\<close> is
  \<^verbatim>\<open>new Date()\<close>, \<open>date_now\<close> the later \<^verbatim>\<open>Date.now()\<close>, \<open>random_hex\<close> the value of
  \<^verbatim>\<open>crypto.randomBytes(16).toString('hex')\<close>. \<^verbatim>\<open>ttlMinutos\<close> is an integer here.
  \<^verbatim>\<open>toISOString\<close> throws on an instant beyond the range of \<^verbatim>\<open>Date\<close>, into the outer
  \<^verbatim>\<open>catch\<close>. Columns the INSERT does not name are \<^verbatim>\<open>NULL\<close>.
\<close>

definition field :: "(string \<times> json) list \<Rightarrow> string \<Rightarrow> json" where
  "field body k = (case map_of body k of None \<Rightarrow> JNull | Some v \<Rightarrow> v)"

definition digit :: "nat \<Rightarrow> char" where
  "digit d = ''0123456789'' ! d"

fun dec :: "nat \<Rightarrow> string" where
  "dec n = (if n < 10 then [digit n] else dec (n div 10) @ [digit (n mod 10)])"

declare dec.simps [simp del]

definition show_int :: "int \<Rightarrow> string" where
  "show_int i = (if i < 0 then CHR ''-'' # dec (nat (- i)) else dec (nat i))"

definition baseUrl :: "env \<Rightarrow> string" where
  "baseUrl E =
     (case or_str (TYC_BASE_URL E) None of
        Some b \<Rightarrow> b
      | None \<Rightarrow>
          ''http://localhost:'' @ (case or_str (PORT E) None of Some p \<Rightarrow> p | None \<Rightarrow> ''3002''))"

definition max_date :: int where
  "max_date = 8640000000000000"

text \<open>\<^verbatim>\<open>typeof ttlMinutos === 'number' && ttlMinutos > 0 ? ttlMinutos : 60\<close>\<close>

definition ttl_minutos :: "(string \<times> json) list \<Rightarrow> int" where
  "ttl_minutos body =
     (case field body ''ttlMinutos'' of
        JNum n \<Rightarrow> if 0 < n then n else 60
      | _ \<Rightarrow> 60)"

definition post_solicitudes ::
  "plat \<Rightarrow> env \<Rightarrow> int \<Rightarrow> int \<Rightarrow> string \<Rightarrow> (string \<times> json) list \<Rightarrow> world \<Rightarrow> response \<times> world" where
  "post_solicitudes P E ahora date_now random_hex body w =
     (if falsy (field body ''preclienteId'')
      then (SendJson 400 [(''ok'', JBool False), (''error'', JStr ''preclienteId es obligatorio'')], w)
      else if falsy (field body ''webhookUrl'')
      then (SendJson 400 [(''ok'', JBool False),
                          (''error'', JStr ''webhookUrl es obligatorio (a donde avisaremos a n8n)'')], w)
      else
        (let ttl = ttl_minutos body;
             expires = ahora + ttl * 60 * 1000;
             tokenHash = sha256 P random_hex;
             s = \<lparr>tycSolicitudId = ''TYC-'' @ show_int date_now,
                  preclienteId = field body ''preclienteId'',
                  canal = (if falsy (field body ''canal'') then JStr ''WHATSAPP''
                           else field body ''canal''),
                  token = random_hex,
                  estado = CREADA,
                  createdAt = ahora,
                  expiresAt = expires,
                  webhookUrl = field body ''webhookUrl'',
                  metadata = (if falsy (field body ''metadata'') then JObj []
                              else field body ''metadata''),
                  openedAt = None,
                  acceptedAt = None,
                  acceptedIp = None,
                  acceptedUserAgent = None\<rparr>
         in if max_date < expires
            then (SendJson 500 [(''ok'', JBool False),
                                (''error'', JStr ''Error inesperado creando la solicitud de TyC'')],
                  console ''[TyC] Error inesperado en /api/tyc/solicitudes:'' w)
            else
              (case sql_insert
                      \<lparr>tyc_solicitud_id = tycSolicitudId s,
                       precliente_id = preclienteId s,
                       token_col = token s,
                       token_hash = tokenHash,
                       canal_col = canal s,
                       webhook_url = webhookUrl s,
                       metadata_col = metadata s,
                       estado_col = estado s,
                       created_at = createdAt s,
                       expires_at = expiresAt s,
                       opened_at = None,
                       accepted_at = None,
                       accepted_ip = None\<rparr> w of
                 (Inl e, w1) \<Rightarrow>
                   (SendJson 500 [(''ok'', JBool False),
                                  (''error'', JStr ''Error guardando la solicitud de TyC en la base de datos'')],
                    console ''[TyC] Error guardando solicitud en BD:'' w1)
               | (Inr u, w1) \<Rightarrow>
                   (SendJson 200 [(''ok'', JBool True),
                                  (''tycSolicitudId'', JStr (tycSolicitudId s)),
                                  (''preclienteId'', preclienteId s),
                                  (''url'', JStr (baseUrl E @ ''/tyc/'' @ random_hex)),
                                  (''token'', JStr random_hex),
                                  (''expiresAt'', JIso (expiresAt s))],
                    cache_set random_hex s w1))))"

section \<open>Attempts and answers\<close>

text \<open>A read or an accept attempt on a token, through the handlers of either file.\<close>

datatype intento = Leer | Aceptar req

definition internalAuth_intento ::
  "plat \<Rightarrow> env \<Rightarrow> int \<Rightarrow> int \<Rightarrow> int \<Rightarrow> string \<Rightarrow> intento \<Rightarrow> world \<Rightarrow> response \<times> world" where
  "internalAuth_intento P E ahora ahora_iso db_now tok a w =
     (case a of
        Leer \<Rightarrow> internalAuth_get_tyc P E ahora ahora_iso db_now tok w
      | Aceptar r \<Rightarrow> internalAuth_post_aceptar P E ahora ahora_iso db_now tok r w)"

definition tycRoutes_intento ::
  "plat \<Rightarrow> env \<Rightarrow> int \<Rightarrow> int \<Rightarrow> string \<Rightarrow> intento \<Rightarrow> world \<Rightarrow> response \<times> world" where
  "tycRoutes_intento P E ahora ahora_iso tok a w =
     (case a of
        Leer \<Rightarrow> tycRoutes_get_tyc P E ahora ahora_iso tok w
      | Aceptar r \<Rightarrow> tycRoutes_post_aceptar P E ahora ahora_iso tok r w)"

fun status :: "response \<Rightarrow> nat" where
  "status (Send code page) = code"
| "status (SendJson code kvs) = code"

text \<open>The value of a key of a JSON answer; \<open>None\<close> for an HTML answer or a missing key.\<close>

fun answer_key :: "response \<Rightarrow> string \<Rightarrow> json option" where
  "answer_key (Send code page) k = None"
| "answer_key (SendJson code kvs) k = map_of kvs k"

text \<open>The records the cron handler expires at \<open>ahora\<close>, and the request it sends for one.\<close>

definition vencida :: "int \<Rightarrow> solicitud \<Rightarrow> bool" where
  "vencida ahora s = ((estado s = CREADA \<or> estado s = ABIERTA) \<and> expiresAt s < ahora)"

definition aviso_expirada :: "plat \<Rightarrow> env \<Rightarrow> solicitud \<Rightarrow> post" where
  "aviso_expirada P E s = webhook_post P E (s\<lparr>estado := EXPIRADA\<rparr>) ''TYC_EXPIRADA''"

text \<open>The record the cron handler finds under a token and expires.\<close>

definition por_expirar :: "int \<Rightarrow> world \<Rightarrow> string \<Rightarrow> solicitud option" where
  "por_expirar ahora w t =
     (case cache_get t w of
        None \<Rightarrow> None
      | Some s \<Rightarrow> if vencida ahora s then Some s else None)"

text \<open>A webhook request echoes the metadata of a record when its body has it as a value.\<close>

definition carries_metadata :: "solicitud \<Rightarrow> post \<Rightarrow> bool" where
  "carries_metadata s p =
     (case data p of JObj kvs \<Rightarrow> metadata s \<in> snd ` set kvs | _ \<Rightarrow> False)"

text \<open>
  What \<^verbatim>\<open>sendWebhook\<close> puts into a request: the eight keys of the payload, a destination
  that is set, and the signature of the serialised body under the secret.
\<close>

definition from_sendWebhook :: "plat \<Rightarrow> env \<Rightarrow> post \<Rightarrow> bool" where
  "from_sendWebhook P E p =
     (case data p of
        JObj kvs \<Rightarrow>
          map fst kvs = [''evento'', ''preclienteId'', ''tycSolicitudId'', ''estado'',
                         ''createdAt'', ''expiresAt'', ''openedAt'', ''acceptedAt'']
          \<and> \<not> falsy (url p)
          \<and> map_of (headers p) ''X-AMA-Signature''
              = Some (hmac_sha256 P (webhook_secret E) (JSON_stringify P (data p)))
      | _ \<Rightarrow> False)"

section \<open>Concrete inputs\<close>

text \<open>
  Values on which the theorems below are evaluated; the platform functions of \<open>plat_ej\<close>
  are stand-ins that keep their arguments visible.
\<close>

definition plat_ej :: plat where
  "plat_ej = \<lparr>hmac_sha256 = (\<lambda>k m. k @ ''|'' @ m),
              sha256 = (\<lambda>m. ''h:'' @ m),
              JSON_stringify = (\<lambda>j. ''json'')\<rparr>"

definition env_ej :: env where
  "env_ej = \<lparr>WEBHOOK_SECRET = None, TYC_BASE_URL = None, PORT = None,
             INTERNAL_API_SECRET = Some ''s3''\<rparr>"

definition solicitud_ej :: solicitud where
  "solicitud_ej = \<lparr>tycSolicitudId = ''TYC-1001'', preclienteId = JStr ''p1'',
          canal = JStr ''WHATSAPP'', token = ''abcd'', estado = CREADA,
          createdAt = 1000, expiresAt = 61000,
          webhookUrl = JStr ''http://n8n/h'',
          metadata = JObj [(''k'', JStr ''v'')], openedAt = None,
          acceptedAt = None, acceptedIp = None, acceptedUserAgent = None\<rparr>"

definition mundo_vacio :: world where
  "mundo_vacio = \<lparr>solicitudesTyC = [], tyc_solicitudes = [], faults = [], enviados = [], consola = []\<rparr>"

definition fila_ej :: row where
  "fila_ej = \<lparr>tyc_solicitud_id = ''TYC-1001'', precliente_id = JStr ''p1'',
           token_col = ''abcd'', token_hash = ''h:abcd'',
           canal_col = JStr ''WHATSAPP'',
           webhook_url = JStr ''http://n8n/h'',
           metadata_col = JObj [(''k'', JStr ''v'')], estado_col = CREADA,
           created_at = 1000, expires_at = 61000, opened_at = None,
           accepted_at = None, accepted_ip = None\<rparr>"

definition mundo_creada :: world where
  "mundo_creada = \<lparr>solicitudesTyC = [(''abcd'', solicitud_ej)], tyc_solicitudes = [fila_ej],
     faults = [], enviados = [], consola = []\<rparr>"

definition mundo_caido :: world where
  "mundo_caido = mundo_creada\<lparr>faults := [True]\<rparr>"

definition req_ej :: req where
  "req_ej = \<lparr>x_forwarded_for = Some '' 1.2.3.4 , 5.6.7.8'', ip = None,
             remoteAddress = Some ''::ffff:10.0.0.1'', user_agent = Some ''UA''\<rparr>"

definition body_ej :: "(string \<times> json) list" where
  "body_ej = [(''preclienteId'', JStr ''p1''), (''webhookUrl'', JStr ''http://n8n/h''),
              (''ttlMinutos'', JNum 1), (''metadata'', JObj [(''k'', JStr ''v'')])]"

definition solicitud_aceptada :: solicitud where
  "solicitud_aceptada = solicitud_ej\<lparr>estado := ACEPTADA, acceptedAt := Some 5000,
      acceptedIp := Some ''1.2.3.4'', acceptedUserAgent := Some ''UA''\<rparr>"

definition fila_aceptada :: row where
  "fila_aceptada = fila_ej\<lparr>estado_col := ACEPTADA, accepted_at := Some 5000,
      accepted_ip := Some ''1.2.3.4''\<rparr>"

definition mundo_aceptada :: world where
  "mundo_aceptada = \<lparr>solicitudesTyC = [(''abcd'', solicitud_aceptada)],
     tyc_solicitudes = [fila_aceptada], faults = [], enviados = [], consola = []\<rparr>"

definition mundo_reiniciado :: world where
  "mundo_reiniciado = \<lparr>solicitudesTyC = [], tyc_solicitudes = [fila_ej],
     faults = [], enviados = [], consola = []\<rparr>"

definition mundo_barrido :: world where
  "mundo_barrido =
     \<lparr>solicitudesTyC = [(''t1'', solicitud_ej\<lparr>token := ''t1''\<rparr>),
                        (''t2'', solicitud_ej\<lparr>token := ''t2''\<rparr>),
                        (''abcd'', solicitud_aceptada)],
      tyc_solicitudes = [fila_ej\<lparr>token_col := ''t1''\<rparr>,
                         fila_ej\<lparr>token_col := ''t2''\<rparr>,
                         fila_aceptada],
      faults = [], enviados = [], consola = []\<rparr>"

section \<open>Facts about the state\<close>

lemma cache_get_cache_set [simp]:
  "cache_get t (cache_set tok s w) = (if t = tok then Some s else cache_get t w)"
  by (simp add: cache_get_def cache_set_def update_conv')

lemma cache_set_distinct:
  "distinct (map fst (solicitudesTyC w)) \<Longrightarrow>
   distinct (map fst (solicitudesTyC (cache_set tok s w)))"
  by (simp add: cache_set_def distinct_update)

lemma cache_set_fields [simp]:
  "tyc_solicitudes (cache_set tok s w) = tyc_solicitudes w"
  "faults (cache_set tok s w) = faults w"
  "enviados (cache_set tok s w) = enviados w"
  "consola (cache_set tok s w) = consola w"
  by (simp_all add: cache_set_def)

lemma console_fields [simp]:
  "solicitudesTyC (console m w) = solicitudesTyC w"
  "tyc_solicitudes (console m w) = tyc_solicitudes w"
  "faults (console m w) = faults w"
  "enviados (console m w) = enviados w"
  "consola (console m w) = consola w @ [m]"
  "cache_get t (console m w) = cache_get t w"
  by (simp_all add: console_def cache_get_def)

lemma sendWebhook_fields [simp]:
  "solicitudesTyC (sendWebhook P E s ev w) = solicitudesTyC w"
  "tyc_solicitudes (sendWebhook P E s ev w) = tyc_solicitudes w"
  "faults (sendWebhook P E s ev w) = faults w"
  "cache_get t (sendWebhook P E s ev w) = cache_get t w"
  "enviados (sendWebhook P E s ev w) =
     enviados w @ (if falsy (webhookUrl s) then [] else [webhook_post P E s ev])"
  by (simp_all add: sendWebhook_def console_def cache_get_def)

lemma next_query_fails_simps [simp]:
  "next_query_fails (cache_set tok s w) = next_query_fails w"
  "next_query_fails (console m w) = next_query_fails w"
  "next_query_fails (sendWebhook P E s ev w) = next_query_fails w"
  by (simp_all add: next_query_fails_def)

lemma cache_get_faults_upd [simp]:
  "cache_get t (w\<lparr>faults := f\<rparr>) = cache_get t w"
  "cache_get t (w\<lparr>tyc_solicitudes := rs\<rparr>) = cache_get t w"
  by (simp_all add: cache_get_def)

lemma sql_insert_eq:
  "sql_insert r w =
     (if next_query_fails w then (Inl Query_failed, w\<lparr>faults := tl (faults w)\<rparr>)
      else (Inr (), w\<lparr>faults := tl (faults w), tyc_solicitudes := tyc_solicitudes w @ [r]\<rparr>))"
  by (simp add: sql_insert_def pool_query_def)

lemma sql_select_eq:
  "sql_select tok w =
     (if next_query_fails w then (Inl Query_failed, w\<lparr>faults := tl (faults w)\<rparr>)
      else (Inr (find (\<lambda>r. token_col r = tok) (tyc_solicitudes w)), w\<lparr>faults := tl (faults w)\<rparr>))"
  by (simp add: sql_select_def pool_query_def)

lemma sql_update_estado_eq:
  "sql_update_estado tok e w =
     (if next_query_fails w then (Inl Query_failed, w\<lparr>faults := tl (faults w)\<rparr>)
      else (Inr (), w\<lparr>faults := tl (faults w),
                       tyc_solicitudes := map (set_estado tok e) (tyc_solicitudes w)\<rparr>))"
  by (simp add: sql_update_estado_def pool_query_def)

lemma sql_update_opened_eq:
  "sql_update_opened tok d w =
     (if next_query_fails w then (Inl Query_failed, w\<lparr>faults := tl (faults w)\<rparr>)
      else (Inr (), w\<lparr>faults := tl (faults w),
                       tyc_solicitudes := map (set_opened tok d) (tyc_solicitudes w)\<rparr>))"
  by (simp add: sql_update_opened_def pool_query_def)

lemma sql_update_accepted_eq:
  "sql_update_accepted tok i e d w =
     (if next_query_fails w then (Inl Query_failed, w\<lparr>faults := tl (faults w)\<rparr>)
      else (Inr (map (\<lambda>r. d) (filter (accept_matches tok) (tyc_solicitudes w))),
            w\<lparr>faults := tl (faults w),
              tyc_solicitudes := map (set_accepted tok i e d) (tyc_solicitudes w)\<rparr>))"
  by (simp add: sql_update_accepted_def pool_query_def)

lemmas ej_all = plat_ej_def env_ej_def solicitud_ej_def fila_ej_def mundo_vacio_def mundo_creada_def
  mundo_caido_def req_ej_def body_ej_def solicitud_aceptada_def fila_aceptada_def
  mundo_aceptada_def mundo_reiniciado_def mundo_barrido_def

lemmas eval_defs = internalAuth_intento_def internalAuth_get_tyc_def internalAuth_post_aceptar_def
  internalAuth_cargar_def internalAuth_expirar_def tycRoutes_intento_def tycRoutes_get_tyc_def
  tycRoutes_post_aceptar_def cache_get_def cache_set_def console_def sendWebhook_def
  webhook_post_def webhook_payload_def webhook_secret_def iso_or_null_def str_or_null_def
  sql_select_def sql_insert_def sql_update_estado_def sql_update_opened_def
  sql_update_accepted_def pool_query_def next_query_fails_def set_estado_def set_opened_def
  set_accepted_def accept_matches_def error_interno_500_def or_str_def solicitud_of_row_def
  aviso_expirada_def Let_def

lemmas fn_all = getClientIp_def trim_def is_space_def startsWith_def check_expired_def

section \<open>The load step and the expiry branch\<close>

lemma internalAuth_cargar_found:
  assumes "internalAuth_cargar tok w = (Inr (Some s), w1)"
  shows "cache_get tok w1 = Some s"
    and "enviados w1 = enviados w"
    and "tyc_solicitudes w1 = tyc_solicitudes w"
    and "consola w1 = consola w"
  using assms
  by (auto simp: internalAuth_cargar_def sql_select_eq split: option.splits if_splits)

lemma internalAuth_cargar_hit:
  "cache_get tok w = Some s \<Longrightarrow> internalAuth_cargar tok w = (Inr (Some s), w)"
  by (simp add: internalAuth_cargar_def)

lemma internalAuth_cargar_enviados:
  "enviados (snd (internalAuth_cargar tok w)) = enviados w"
  by (simp add: internalAuth_cargar_def sql_select_eq split: option.splits)

lemma internalAuth_expirar_fresh:
  assumes "estado s \<noteq> EXPIRADA"
  shows "cache_get tok (internalAuth_expirar P E tok s msg w) = Some (s\<lparr>estado := EXPIRADA\<rparr>)"
    and "enviados (internalAuth_expirar P E tok s msg w) =
           enviados w @ (if falsy (webhookUrl s) then [] else [aviso_expirada P E s])"
    and "tyc_solicitudes (internalAuth_expirar P E tok s msg w) =
           (if next_query_fails w then tyc_solicitudes w
            else map (set_estado tok EXPIRADA) (tyc_solicitudes w))"
    and "consola (internalAuth_expirar P E tok s msg w) =
           consola w @ (if next_query_fails w then [msg] else [])
                     @ (if falsy (webhookUrl s)
                        then [''No hay webhookUrl configurado en la solicitud, no se envia nada.'']
                        else [])"
  using assms
  by (simp_all add: internalAuth_expirar_def sql_update_estado_eq Let_def aviso_expirada_def
        sendWebhook_def console_def cache_get_def cache_set_def update_conv' next_query_fails_def)

lemma internalAuth_expirar_done:
  "estado s = EXPIRADA \<Longrightarrow> internalAuth_expirar P E tok s msg w = w"
  by (simp add: internalAuth_expirar_def)

lemma internalAuth_intento_stale:
  assumes "internalAuth_cargar tok w = (Inr (Some s), w1)"
      and "estado s \<noteq> ACEPTADA" and "expiresAt s < ahora"
  shows "status (fst (internalAuth_intento P E ahora i d tok a w)) = 410"
    and "snd (internalAuth_intento P E ahora i d tok a w) =
           internalAuth_expirar P E tok s
             (case a of Leer \<Rightarrow> ''[TyC] Error actualizando estado EXPIRADA en BD:''
              | Aceptar r \<Rightarrow> ''[TyC] Error actualizando EXPIRADA en BD (POST /aceptar):'') w1"
  using assms
  by (simp_all add: internalAuth_intento_def internalAuth_get_tyc_def
        internalAuth_post_aceptar_def split: intento.splits)

section \<open>The cron handler\<close>

lemma update_distinct_map:
  "distinct (map fst al) \<Longrightarrow> map_of al k = Some v0 \<Longrightarrow>
   AList.update k v al = map (\<lambda>(k', s). if k' = k then (k', v) else (k', s)) al"
proof (induction al)
  case Nil
  then show ?case by simp
next
  case (Cons p al)
  obtain k' s' where p: "p = (k', s')" by (cases p)
  show ?case
  proof (cases "k' = k")
    case True
    have "k \<notin> fst ` set al" using Cons.prems(1) p True by simp
    then have "map (\<lambda>(k', s). if k' = k then (k', v) else (k', s)) al = al"
      by (induction al) (auto split: prod.splits)
    then show ?thesis using p True by simp
  next
    case False
    then show ?thesis using Cons p by simp
  qed
qed

lemma check_expired_loop_table [simp]:
  "tyc_solicitudes (snd (check_expired_loop P E ahora ts c w)) = tyc_solicitudes w"
  "faults (snd (check_expired_loop P E ahora ts c w)) = faults w"
  by (induction ts arbitrary: c w) (simp_all split: option.splits)

lemma check_expired_loop_spec:
  assumes "distinct (map fst (solicitudesTyC w))" and "distinct ts"
  shows "fst (check_expired_loop P E ahora ts c w)
           = c + length (List.map_filter (por_expirar ahora w) ts)
       \<and> solicitudesTyC (snd (check_expired_loop P E ahora ts c w))
           = map (\<lambda>(k, s). if k \<in> set ts \<and> vencida ahora s
                            then (k, s\<lparr>estado := EXPIRADA\<rparr>) else (k, s)) (solicitudesTyC w)
       \<and> enviados (snd (check_expired_loop P E ahora ts c w))
           = enviados w @ map (aviso_expirada P E)
               (filter (\<lambda>s. \<not> falsy (webhookUrl s)) (List.map_filter (por_expirar ahora w) ts))"
  using assms
proof (induction ts arbitrary: c w)
  case Nil
  then show ?case by (simp add: List.map_filter_simps case_prod_unfold)
next
  case (Cons tok ts)
  have dts: "distinct ts" and nin: "tok \<notin> set ts" using Cons.prems(2) by simp_all
  show ?case
  proof (cases "cache_get tok w")
    case None
    then have notkey: "tok \<notin> fst ` set (solicitudesTyC w)"
      by (simp add: cache_get_def map_of_eq_None_iff)
    have m: "map (\<lambda>(k, s). if k \<in> set (tok # ts) \<and> vencida ahora s
                            then (k, s\<lparr>estado := EXPIRADA\<rparr>) else (k, s)) (solicitudesTyC w)
           = map (\<lambda>(k, s). if k \<in> set ts \<and> vencida ahora s
                            then (k, s\<lparr>estado := EXPIRADA\<rparr>) else (k, s)) (solicitudesTyC w)"
      using notkey by (intro map_cong) (auto simp: image_iff)
    show ?thesis
      using Cons.IH [OF Cons.prems(1) dts, of c] None m
      by (simp add: List.map_filter_simps por_expirar_def)
  next
    case (Some s)
    show ?thesis
    proof (cases "vencida ahora s")
      case False
      have m: "map (\<lambda>(k, s). if k \<in> set (tok # ts) \<and> vencida ahora s
                            then (k, s\<lparr>estado := EXPIRADA\<rparr>) else (k, s)) (solicitudesTyC w)
           = map (\<lambda>(k, s). if k \<in> set ts \<and> vencida ahora s
                            then (k, s\<lparr>estado := EXPIRADA\<rparr>) else (k, s)) (solicitudesTyC w)"
      proof (intro map_cong refl)
        fix x assume x: "x \<in> set (solicitudesTyC w)"
        obtain k s' where xs: "x = (k, s')" by (cases x)
        have "k = tok \<Longrightarrow> s' = s"
          using x xs Some Cons.prems(1) by (simp add: cache_get_def)
        then show "(case x of (k, s) \<Rightarrow> if k \<in> set (tok # ts) \<and> vencida ahora s
                            then (k, s\<lparr>estado := EXPIRADA\<rparr>) else (k, s))
                 = (case x of (k, s) \<Rightarrow> if k \<in> set ts \<and> vencida ahora s
                            then (k, s\<lparr>estado := EXPIRADA\<rparr>) else (k, s))"
          using xs False by auto
      qed
      have step: "check_expired_loop P E ahora (tok # ts) c w = check_expired_loop P E ahora ts c w"
        using Some False by (auto simp: vencida_def)
      show ?thesis
        using Cons.IH [OF Cons.prems(1) dts, of c] Some False m
        by (simp only: step) (simp add: List.map_filter_simps por_expirar_def)
    next
      case True
      let ?s' = "s\<lparr>estado := EXPIRADA\<rparr>"
      let ?w2 = "sendWebhook P E ?s' ''TYC_EXPIRADA'' (cache_set tok ?s' w)"
      have step: "check_expired_loop P E ahora (tok # ts) c w
                    = check_expired_loop P E ahora ts (c + 1) ?w2"
        using Some True by (auto simp: vencida_def)
      have c2: "solicitudesTyC ?w2
                  = map (\<lambda>(k', s0). if k' = tok then (k', ?s') else (k', s0)) (solicitudesTyC w)"
        using update_distinct_map [OF Cons.prems(1), of tok s ?s'] Some
        by (simp add: cache_set_def cache_get_def)
      have d2: "distinct (map fst (solicitudesTyC ?w2))"
        using Cons.prems(1) by (simp add: cache_set_def distinct_update)
      have same: "por_expirar ahora ?w2 t = por_expirar ahora w t" if "t \<in> set ts" for t
        using that nin by (auto simp: por_expirar_def)
      have mf: "List.map_filter (por_expirar ahora ?w2) ts = List.map_filter (por_expirar ahora w) ts"
        using same by (simp add: List.map_filter_def cong: map_cong filter_cong)
      have m: "map (\<lambda>(k, s). if k \<in> set ts \<and> vencida ahora s
                            then (k, s\<lparr>estado := EXPIRADA\<rparr>) else (k, s)) (solicitudesTyC ?w2)
           = map (\<lambda>(k, s). if k \<in> set (tok # ts) \<and> vencida ahora s
                            then (k, s\<lparr>estado := EXPIRADA\<rparr>) else (k, s)) (solicitudesTyC w)"
        unfolding c2 map_map
      proof (intro map_cong refl)
        fix x assume x: "x \<in> set (solicitudesTyC w)"
        obtain k s' where xs: "x = (k, s')" by (cases x)
        have "k = tok \<Longrightarrow> s' = s"
          using x xs Some Cons.prems(1) by (simp add: cache_get_def)
        then show "((\<lambda>(k, s). if k \<in> set ts \<and> vencida ahora s
                            then (k, s\<lparr>estado := EXPIRADA\<rparr>) else (k, s)) \<circ>
                    (\<lambda>(k', s0). if k' = tok then (k', ?s') else (k', s0))) x
                 = (case x of (k, s) \<Rightarrow> if k \<in> set (tok # ts) \<and> vencida ahora s
                            then (k, s\<lparr>estado := EXPIRADA\<rparr>) else (k, s))"
          using xs True nin by auto
      qed
      have pe: "por_expirar ahora w tok = Some s"
        using Some True by (simp add: por_expirar_def)
      show ?thesis
        using Cons.IH [OF d2 dts, of "c + 1"] m mf pe
        by (simp only: step) (simp add: List.map_filter_simps aviso_expirada_def)
    qed
  qed
qed

lemma map_filter_keys:
  "distinct (map fst al) \<Longrightarrow> set xs \<subseteq> set al \<Longrightarrow>
   List.map_filter (\<lambda>t. case map_of al t of None \<Rightarrow> None
                          | Some s \<Rightarrow> if V s then Some s else None) (map fst xs)
     = filter V (map snd xs)"
  by (induction xs) (auto simp: List.map_filter_simps)

text \<open>
  What the cron handler does on a map with distinct keys: it counts the records in state
  \<^verbatim>\<open>CREADA\<close> or \<^verbatim>\<open>ABIERTA\<close> past \<^verbatim>\<open>expiresAt\<close>, marks exactly those \<^verbatim>\<open>EXPIRADA\<close>, sends
  one request for each that has a \<^verbatim>\<open>webhookUrl\<close>, in the order of the map, and never
  touches the table.
\<close>

lemma check_expired_spec:
  assumes "distinct (map fst (solicitudesTyC w))"
  shows "fst (check_expired P E ahora w) =
           SendJson 200 [(''ok'', JBool True),
              (''expiradas'',
               JNum (int (length (filter (vencida ahora) (map snd (solicitudesTyC w))))))]"
    and "solicitudesTyC (snd (check_expired P E ahora w)) =
           map (\<lambda>(k, s). (k, if vencida ahora s then s\<lparr>estado := EXPIRADA\<rparr> else s))
             (solicitudesTyC w)"
    and "enviados (snd (check_expired P E ahora w)) =
           enviados w @ map (aviso_expirada P E)
             (filter (\<lambda>s. \<not> falsy (webhookUrl s))
                (filter (vencida ahora) (map snd (solicitudesTyC w))))"
    and "tyc_solicitudes (snd (check_expired P E ahora w)) = tyc_solicitudes w"
proof -
  let ?al = "solicitudesTyC w"
  have dk: "distinct (map fst ?al)" by (rule assms)
  have mf: "List.map_filter (por_expirar ahora w) (map fst ?al) = filter (vencida ahora) (map snd ?al)"
    using map_filter_keys [OF assms subset_refl, of "vencida ahora"]
    by (simp add: por_expirar_def [abs_def] cache_get_def)
  let ?L = "check_expired_loop P E ahora (map fst ?al) 0 w"
  have ce: "check_expired P E ahora w =
              (SendJson 200 [(''ok'', JBool True), (''expiradas'', JNum (int (fst ?L)))], snd ?L)"
    by (simp add: check_expired_def split: prod.splits)
  note spec = check_expired_loop_spec [OF assms dk, of P E ahora 0, unfolded mf]
  have m: "map (\<lambda>(k, s). if k \<in> set (map fst ?al) \<and> vencida ahora s
                            then (k, s\<lparr>estado := EXPIRADA\<rparr>) else (k, s)) ?al
         = map (\<lambda>(k, s). (k, if vencida ahora s then s\<lparr>estado := EXPIRADA\<rparr> else s)) ?al"
    by (intro map_cong refl) force
  have s1: "fst ?L = length (filter (vencida ahora) (map snd ?al))"
    using spec by simp
  have s2: "solicitudesTyC (snd ?L) =
              map (\<lambda>(k, s). (k, if vencida ahora s then s\<lparr>estado := EXPIRADA\<rparr> else s)) ?al"
    using spec m by simp
  have s3: "enviados (snd ?L) = enviados w @ map (aviso_expirada P E)
             (filter (\<lambda>s. \<not> falsy (webhookUrl s)) (filter (vencida ahora) (map snd ?al)))"
    using spec by simp
  show "fst (check_expired P E ahora w) =
           SendJson 200 [(''ok'', JBool True),
              (''expiradas'',
               JNum (int (length (filter (vencida ahora) (map snd (solicitudesTyC w))))))]"
    by (simp only: ce fst_conv s1)
  show "solicitudesTyC (snd (check_expired P E ahora w)) =
           map (\<lambda>(k, s). (k, if vencida ahora s then s\<lparr>estado := EXPIRADA\<rparr> else s))
             (solicitudesTyC w)"
    by (simp only: ce snd_conv s2)
  show "enviados (snd (check_expired P E ahora w)) =
           enviados w @ map (aviso_expirada P E)
             (filter (\<lambda>s. \<not> falsy (webhookUrl s))
                (filter (vencida ahora) (map snd (solicitudesTyC w))))"
    by (simp only: ce snd_conv s3)
  show "tyc_solicitudes (snd (check_expired P E ahora w)) = tyc_solicitudes w"
    by (simp only: ce snd_conv check_expired_loop_table)
qed

lemma check_expired_keeps:
  assumes "distinct (map fst (solicitudesTyC w))"
      and "cache_get tok w = Some s" and "\<not> vencida ahora s"
  shows "cache_get tok (snd (check_expired P E ahora w)) = Some s"
proof -
  have "map_of (map (\<lambda>(k, s). (k, if vencida ahora s then s\<lparr>estado := EXPIRADA\<rparr> else s))
             (solicitudesTyC w)) tok
        = map_option (\<lambda>s. if vencida ahora s then s\<lparr>estado := EXPIRADA\<rparr> else s)
            (map_of (solicitudesTyC w) tok)"
    by (simp add: map_of_map)
  then show ?thesis
    using assms(2,3) by (simp add: cache_get_def check_expired_spec(2) [OF assms(1)])
qed

lemma post_check_expired_authorised:
  "INTERNAL_API_SECRET E = Some k \<Longrightarrow> k \<noteq> [] \<Longrightarrow>
   post_check_expired P E (Some k) ahora w = check_expired P E ahora w"
  by (simp add: post_check_expired_def requireInternalSecret_def or_str_def)

lemma post_check_expired_refused:
  "incoming \<noteq> INTERNAL_API_SECRET E \<or> or_str (INTERNAL_API_SECRET E) None = None \<Longrightarrow>
   status (fst (post_check_expired P E incoming ahora w)) \<in> {401, 500}
   \<and> solicitudesTyC (snd (post_check_expired P E incoming ahora w)) = solicitudesTyC w
   \<and> tyc_solicitudes (snd (post_check_expired P E incoming ahora w)) = tyc_solicitudes w
   \<and> enviados (snd (post_check_expired P E incoming ahora w)) = enviados w"
  by (auto simp: post_check_expired_def requireInternalSecret_def or_str_def
        split: option.splits if_splits)

section \<open>Expiry on a read or accept attempt\<close>

text \<open>
  The expiry branch of \<^verbatim>\<open>src/internalAuth.js\<close>. Let \<open>s\<close> be the record a read or accept
  attempt loads for the token (the map first, else the table), not accepted and past
  \<^verbatim>\<open>expiresAt\<close>. The attempt answers 410 and leaves the record \<^verbatim>\<open>EXPIRADA\<close> in the map.
  If the record was not \<^verbatim>\<open>EXPIRADA\<close> yet, the handler issues the UPDATE that sets
  \<^verbatim>\<open>EXPIRADA\<close> once, which changes the table when the query succeeds and leaves it as it
  was when the query throws, and sends one \<^verbatim>\<open>TYC_EXPIRADA\<close> request when the record has a
  \<^verbatim>\<open>webhookUrl\<close>. A read or accept attempt after \<^verbatim>\<open>expiresAt\<close> on the state this one
  leaves, the map still holding the record, answers 410 again and leaves map, table,
  console and sent requests as they are.
\<close>

lemma internalAuth_expiry_once:
  assumes "internalAuth_cargar tok w = (Inr (Some s), w1)"
      and "estado s \<noteq> ACEPTADA" and "expiresAt s < ahora"
      and "internalAuth_intento P E ahora i d tok a w = (r, w')"
  shows "status r = 410
       \<and> cache_get tok w' = Some (s\<lparr>estado := EXPIRADA\<rparr>)
       \<and> enviados w' = enviados w @
            (if estado s = EXPIRADA \<or> falsy (webhookUrl s) then [] else [aviso_expirada P E s])
       \<and> tyc_solicitudes w' =
            (if estado s = EXPIRADA \<or> next_query_fails w1 then tyc_solicitudes w
             else map (set_estado tok EXPIRADA) (tyc_solicitudes w))
       \<and> (\<forall>ahora' i' d' a'. expiresAt s < ahora' \<longrightarrow>
             status (fst (internalAuth_intento P E ahora' i' d' tok a' w')) = 410
           \<and> snd (internalAuth_intento P E ahora' i' d' tok a' w') = w')"
proof -
  let ?msg = "case a of Leer \<Rightarrow> ''[TyC] Error actualizando estado EXPIRADA en BD:''
              | Aceptar r \<Rightarrow> ''[TyC] Error actualizando EXPIRADA en BD (POST /aceptar):''"
  note load = internalAuth_cargar_found [OF assms(1)]
  have r: "status r = 410" and w': "w' = internalAuth_expirar P E tok s ?msg w1"
    using internalAuth_intento_stale [OF assms(1-3), of P E i d a] assms(4) by simp_all
  have cache: "cache_get tok w' = Some (s\<lparr>estado := EXPIRADA\<rparr>)"
  proof (cases "estado s = EXPIRADA")
    case True
    then show ?thesis using w' load(1) by (simp add: internalAuth_expirar_done)
  next
    case False
    then show ?thesis using w' by (simp add: internalAuth_expirar_fresh)
  qed
  have env: "enviados w' = enviados w @
            (if estado s = EXPIRADA \<or> falsy (webhookUrl s) then [] else [aviso_expirada P E s])"
    using w' load(2)
    by (cases "estado s = EXPIRADA")
       (simp_all add: internalAuth_expirar_done internalAuth_expirar_fresh)
  have tab: "tyc_solicitudes w' =
            (if estado s = EXPIRADA \<or> next_query_fails w1 then tyc_solicitudes w
             else map (set_estado tok EXPIRADA) (tyc_solicitudes w))"
    using w' load(3)
    by (cases "estado s = EXPIRADA")
       (simp_all add: internalAuth_expirar_done internalAuth_expirar_fresh)
  have later: "status (fst (internalAuth_intento P E ahora' i' d' tok a' w')) = 410
           \<and> snd (internalAuth_intento P E ahora' i' d' tok a' w') = w'"
    if "expiresAt s < ahora'" for ahora' i' d' a'
  proof -
    have hit: "internalAuth_cargar tok w' = (Inr (Some (s\<lparr>estado := EXPIRADA\<rparr>)), w')"
      using cache by (rule internalAuth_cargar_hit)
    show ?thesis
      using internalAuth_intento_stale [OF hit, of ahora' P E i' d' a'] that
      by (simp add: internalAuth_expirar_done)
  qed
  show ?thesis using r cache env tab later by blast
qed

text \<open>The lemma at a record created at 1000 that expired at 61000, read at 70000.\<close>

lemma internalAuth_expiry_once_at_read:
  "internalAuth_cargar ''abcd'' mundo_creada = (Inr (Some solicitud_ej), mundo_creada)
   \<and> estado solicitud_ej \<noteq> ACEPTADA \<and> expiresAt solicitud_ej < 70000
   \<and> status (fst (internalAuth_intento plat_ej env_ej 70000 70001 70002 ''abcd'' Leer mundo_creada)) = 410
   \<and> map estado_col (tyc_solicitudes
        (snd (internalAuth_intento plat_ej env_ej 70000 70001 70002 ''abcd'' Leer mundo_creada)))
      = [EXPIRADA]
   \<and> length (enviados
        (snd (internalAuth_intento plat_ej env_ej 70000 70001 70002 ''abcd'' Leer mundo_creada))) = 1"
proof -
  have a: "internalAuth_cargar ''abcd'' mundo_creada = (Inr (Some solicitud_ej), mundo_creada)"
    by (simp add: ej_all internalAuth_cargar_def cache_get_def)
  have b: "estado solicitud_ej \<noteq> ACEPTADA" and c: "expiresAt solicitud_ej < 70000"
    by (simp_all add: ej_all)
  have d: "internalAuth_intento plat_ej env_ej 70000 70001 70002 ''abcd'' Leer mundo_creada =
        (fst (internalAuth_intento plat_ej env_ej 70000 70001 70002 ''abcd'' Leer mundo_creada),
         snd (internalAuth_intento plat_ej env_ej 70000 70001 70002 ''abcd'' Leer mundo_creada))"
    by simp
  have e: "\<not> next_query_fails mundo_creada" "tyc_solicitudes mundo_creada = [fila_ej]"
     "enviados mundo_creada = []" "\<not> falsy (webhookUrl solicitud_ej)"
     "estado solicitud_ej \<noteq> EXPIRADA" "token_col fila_ej = ''abcd''"
    by (simp_all add: ej_all next_query_fails_def)
  show ?thesis
    using internalAuth_expiry_once [OF a b c d] a b c e by (simp add: set_estado_def)
qed

text \<open>
  Where the UPDATE throws, the read answers 410, the record is \<^verbatim>\<open>EXPIRADA\<close> in the map
  and the notification is sent, while the row stays \<^verbatim>\<open>CREADA\<close>.
\<close>

lemma internalAuth_expiry_not_persisted:
  "fst (internalAuth_get_tyc plat_ej env_ej 70000 70001 70002 ''abcd'' mundo_caido)
     = Send 410 Enlace_expirado
   \<and> map (\<lambda>(t, s). estado s)
       (solicitudesTyC (snd (internalAuth_get_tyc plat_ej env_ej 70000 70001 70002 ''abcd'' mundo_caido)))
     = [EXPIRADA]
   \<and> map estado_col
       (tyc_solicitudes (snd (internalAuth_get_tyc plat_ej env_ej 70000 70001 70002 ''abcd'' mundo_caido)))
     = [CREADA]
   \<and> length (enviados (snd (internalAuth_get_tyc plat_ej env_ej 70000 70001 70002 ''abcd'' mundo_caido)))
     = 1"
  by (simp add: ej_all eval_defs)

text \<open>
  The handlers of \<^verbatim>\<open>src/tycRoutes.js\<close> have no test for a record that is already
  \<^verbatim>\<open>EXPIRADA\<close>: every attempt after \<^verbatim>\<open>expiresAt\<close> on a record that is not accepted
  answers 410 and sends the notification, whatever the state of the record, and none
  writes the table.
\<close>

lemma tycRoutes_intento_stale:
  assumes "cache_get tok w = Some s" and "estado s \<noteq> ACEPTADA" and "expiresAt s < ahora"
  shows "status (fst (tycRoutes_intento P E ahora i tok a w)) = 410"
    and "cache_get tok (snd (tycRoutes_intento P E ahora i tok a w)) = Some (s\<lparr>estado := EXPIRADA\<rparr>)"
    and "enviados (snd (tycRoutes_intento P E ahora i tok a w))
           = enviados w @ (if falsy (webhookUrl s) then [] else [aviso_expirada P E s])"
    and "tyc_solicitudes (snd (tycRoutes_intento P E ahora i tok a w)) = tyc_solicitudes w"
  using assms
  by (cases a; simp add: tycRoutes_intento_def tycRoutes_get_tyc_def tycRoutes_post_aceptar_def
        Let_def aviso_expirada_def)+

text \<open>
  C1 at a record in state \<^verbatim>\<open>CREADA\<close> that expired at 61000, read at 70000 and again at
  80000, the table answering every query. Through the handler of \<^verbatim>\<open>src/tycRoutes.js\<close>
  both reads answer 410, but the second read sends \<^verbatim>\<open>TYC_EXPIRADA\<close> a second time, an
  accept attempt after the read sends it again, and the row of the table stays
  \<^verbatim>\<open>CREADA\<close>. Through the handler of \<^verbatim>\<open>src/internalAuth.js\<close> the same two reads send one
  request and the first read writes \<^verbatim>\<open>EXPIRADA\<close> into the row.
\<close>

theorem C1_tycRoutes_notifies_again:
  "cache_get ''abcd'' mundo_creada = Some solicitud_ej
   \<and> estado solicitud_ej = CREADA \<and> expiresAt solicitud_ej = 61000
   \<and> fst (tycRoutes_get_tyc plat_ej env_ej 70000 70001 ''abcd'' mundo_creada)
       = Send 410 Enlace_expirado
   \<and> enviados (snd (tycRoutes_get_tyc plat_ej env_ej 70000 70001 ''abcd'' mundo_creada))
       = [aviso_expirada plat_ej env_ej solicitud_ej]
   \<and> fst (tycRoutes_get_tyc plat_ej env_ej 80000 80001 ''abcd''
            (snd (tycRoutes_get_tyc plat_ej env_ej 70000 70001 ''abcd'' mundo_creada)))
       = Send 410 Enlace_expirado
   \<and> enviados (snd (tycRoutes_get_tyc plat_ej env_ej 80000 80001 ''abcd''
            (snd (tycRoutes_get_tyc plat_ej env_ej 70000 70001 ''abcd'' mundo_creada))))
       = [aviso_expirada plat_ej env_ej solicitud_ej, aviso_expirada plat_ej env_ej solicitud_ej]
   \<and> enviados (snd (tycRoutes_post_aceptar plat_ej env_ej 80000 80001 ''abcd'' req_ej
            (snd (tycRoutes_get_tyc plat_ej env_ej 70000 70001 ''abcd'' mundo_creada))))
       = [aviso_expirada plat_ej env_ej solicitud_ej, aviso_expirada plat_ej env_ej solicitud_ej]
   \<and> map estado_col (tyc_solicitudes (snd (tycRoutes_get_tyc plat_ej env_ej 80000 80001 ''abcd''
            (snd (tycRoutes_get_tyc plat_ej env_ej 70000 70001 ''abcd'' mundo_creada)))))
       = [CREADA]
   \<and> enviados (snd (internalAuth_get_tyc plat_ej env_ej 80000 80001 80002 ''abcd''
            (snd (internalAuth_get_tyc plat_ej env_ej 70000 70001 70002 ''abcd'' mundo_creada))))
       = [aviso_expirada plat_ej env_ej solicitud_ej]
   \<and> map estado_col (tyc_solicitudes
            (snd (internalAuth_get_tyc plat_ej env_ej 70000 70001 70002 ''abcd'' mundo_creada)))
       = [EXPIRADA]"
  by (simp add: ej_all eval_defs)

section \<open>Accepted records\<close>

lemma set_opened_accepted [simp]:
  "(estado_col (set_opened tok d r) = ACEPTADA) = (estado_col r = ACEPTADA)"
  by (simp add: set_opened_def)

lemma internalAuth_get_tyc_accepted:
  assumes "internalAuth_cargar tok w = (Inr (Some s), w1)" and "estado s = ACEPTADA"
  shows "fst (internalAuth_get_tyc P E ahora i d tok w)
           = Send 200 (Pagina (preclienteId s) (expiresAt s) tok (Some True))"
    and "cache_get tok (snd (internalAuth_get_tyc P E ahora i d tok w)) = Some s"
    and "enviados (snd (internalAuth_get_tyc P E ahora i d tok w)) = enviados w"
    and "map (\<lambda>r. estado_col r = ACEPTADA) (tyc_solicitudes (snd (internalAuth_get_tyc P E ahora i d tok w)))
           = map (\<lambda>r. estado_col r = ACEPTADA) (tyc_solicitudes w)"
  using assms internalAuth_cargar_found [OF assms(1)]
  by (auto simp: internalAuth_get_tyc_def sql_update_opened_eq Let_def comp_def)

lemma internalAuth_post_aceptar_accepted:
  assumes "internalAuth_cargar tok w = (Inr (Some s), w1)"
      and "estado s = ACEPTADA"
  shows "internalAuth_post_aceptar P E ahora i d tok r w =
           (SendJson 200 [(''ok'', JBool True),
                          (''mensaje'', JStr ''Esta solicitud ya habia sido aceptada previamente.''),
                          (''preclienteId'', preclienteId s),
                          (''tycSolicitudId'', JStr (tycSolicitudId s)),
                          (''acceptedAt'', iso_or_null (acceptedAt s))], w1)"
  using assms by (simp add: internalAuth_post_aceptar_def)

lemma tycRoutes_accepted:
  assumes "cache_get tok w = Some s" and "estado s = ACEPTADA"
  shows "tycRoutes_get_tyc P E ahora i tok w
           = (Send 200 (Pagina (preclienteId s) (expiresAt s) tok None), w)"
    and "tycRoutes_post_aceptar P E ahora i tok r w
           = (SendJson 200 [(''ok'', JBool True),
                          (''mensaje'', JStr ''Esta solicitud ya habia sido aceptada previamente.''),
                          (''preclienteId'', preclienteId s),
                          (''tycSolicitudId'', JStr (tycSolicitudId s))], w)"
  using assms by (simp_all add: tycRoutes_get_tyc_def tycRoutes_post_aceptar_def)

text \<open>
  The accept handler of \<^verbatim>\<open>src/internalAuth.js\<close> on a record already accepted: success, the
  recorded \<^verbatim>\<open>acceptedAt\<close>, nothing sent, nothing written.
\<close>

lemma internalAuth_post_aceptar_repeat:
  assumes "internalAuth_cargar tok w = (Inr (Some s), w1)"
      and "estado s = ACEPTADA"
  shows "status (fst (internalAuth_post_aceptar P E ahora i d tok r w)) = 200"
    and "answer_key (fst (internalAuth_post_aceptar P E ahora i d tok r w)) ''ok'' = Some (JBool True)"
    and "answer_key (fst (internalAuth_post_aceptar P E ahora i d tok r w)) ''acceptedAt''
           = Some (iso_or_null (acceptedAt s))"
    and "enviados (snd (internalAuth_post_aceptar P E ahora i d tok r w)) = enviados w"
    and "cache_get tok (snd (internalAuth_post_aceptar P E ahora i d tok r w)) = Some s"
    and "tyc_solicitudes (snd (internalAuth_post_aceptar P E ahora i d tok r w)) = tyc_solicitudes w"
  using internalAuth_cargar_found [OF assms(1)]
  by (simp_all add: internalAuth_post_aceptar_accepted [OF assms])

text \<open>
  C2 at a record accepted at 5000, accepted again at 6000. The handler of
  \<^verbatim>\<open>src/tycRoutes.js\<close> answers success without change and without a notification, but its
  answer has no \<^verbatim>\<open>acceptedAt\<close>; the handler of \<^verbatim>\<open>src/internalAuth.js\<close> returns the
  original instant.
\<close>

theorem C2_tycRoutes_repeat_without_acceptedAt:
  "cache_get ''abcd'' mundo_aceptada = Some solicitud_aceptada
   \<and> estado solicitud_aceptada = ACEPTADA
   \<and> acceptedAt solicitud_aceptada = Some 5000
   \<and> tycRoutes_post_aceptar plat_ej env_ej 6000 6001 ''abcd'' req_ej mundo_aceptada
       = (SendJson 200 [(''ok'', JBool True),
                        (''mensaje'', JStr ''Esta solicitud ya habia sido aceptada previamente.''),
                        (''preclienteId'', JStr ''p1''),
                        (''tycSolicitudId'', JStr ''TYC-1001'')], mundo_aceptada)
   \<and> answer_key (fst (tycRoutes_post_aceptar plat_ej env_ej 6000 6001 ''abcd'' req_ej mundo_aceptada))
        ''acceptedAt'' = None
   \<and> answer_key (fst (internalAuth_post_aceptar plat_ej env_ej 6000 6001 6002 ''abcd'' req_ej mundo_aceptada))
        ''acceptedAt'' = Some (JIso 5000)"
  by (simp add: ej_all eval_defs)

text \<open>
  C9. Let \<open>s\<close> be an accepted record: the one a handler of \<^verbatim>\<open>src/internalAuth.js\<close> loads
  for the token, or the one the map holds for the handlers of \<^verbatim>\<open>src/tycRoutes.js\<close> and
  for the cron handler. At any instant \<open>ahora\<close>, before or after \<^verbatim>\<open>expiresAt\<close>, a read
  and an accept answer 200 (the accept with \<^verbatim>\<open>ok: true\<close>), send nothing, leave the record
  in the map as it is and leave every accepted row of the table accepted. The cron
  handler, on a map with distinct keys (as those of a JavaScript \<^verbatim>\<open>Map\<close> are), leaves
  the record as it is, counts only records in state \<^verbatim>\<open>CREADA\<close> or \<^verbatim>\<open>ABIERTA\<close> past
  \<^verbatim>\<open>expiresAt\<close>, sends requests only for those, and leaves the table as it is.
\<close>

theorem C9_accepted_is_terminal:
  "(internalAuth_cargar tok w = (Inr (Some s), w1) \<and> estado s = ACEPTADA \<longrightarrow>
       status (fst (internalAuth_get_tyc P E ahora i d tok w)) = 200
     \<and> cache_get tok (snd (internalAuth_get_tyc P E ahora i d tok w)) = Some s
     \<and> enviados (snd (internalAuth_get_tyc P E ahora i d tok w)) = enviados w
     \<and> map (\<lambda>r. estado_col r = ACEPTADA)
          (tyc_solicitudes (snd (internalAuth_get_tyc P E ahora i d tok w)))
         = map (\<lambda>r. estado_col r = ACEPTADA) (tyc_solicitudes w)
     \<and> status (fst (internalAuth_post_aceptar P E ahora i d tok r w)) = 200
     \<and> answer_key (fst (internalAuth_post_aceptar P E ahora i d tok r w)) ''ok'' = Some (JBool True)
     \<and> cache_get tok (snd (internalAuth_post_aceptar P E ahora i d tok r w)) = Some s
     \<and> enviados (snd (internalAuth_post_aceptar P E ahora i d tok r w)) = enviados w
     \<and> tyc_solicitudes (snd (internalAuth_post_aceptar P E ahora i d tok r w)) = tyc_solicitudes w)
   \<and> (cache_get tok w = Some s \<and> estado s = ACEPTADA \<longrightarrow>
       status (fst (tycRoutes_get_tyc P E ahora i tok w)) = 200
     \<and> snd (tycRoutes_get_tyc P E ahora i tok w) = w
     \<and> status (fst (tycRoutes_post_aceptar P E ahora i tok r w)) = 200
     \<and> answer_key (fst (tycRoutes_post_aceptar P E ahora i tok r w)) ''ok'' = Some (JBool True)
     \<and> snd (tycRoutes_post_aceptar P E ahora i tok r w) = w)
   \<and> (cache_get tok w = Some s \<and> estado s = ACEPTADA \<and> distinct (map fst (solicitudesTyC w)) \<longrightarrow>
       cache_get tok (snd (check_expired P E ahora w)) = Some s
     \<and> \<not> vencida ahora s
     \<and> answer_key (fst (check_expired P E ahora w)) ''expiradas''
         = Some (JNum (int (length (filter (vencida ahora) (map snd (solicitudesTyC w))))))
     \<and> enviados (snd (check_expired P E ahora w)) =
           enviados w @ map (aviso_expirada P E)
             (filter (\<lambda>s. \<not> falsy (webhookUrl s))
                (filter (vencida ahora) (map snd (solicitudesTyC w))))
     \<and> tyc_solicitudes (snd (check_expired P E ahora w)) = tyc_solicitudes w)"
proof (intro conjI impI)
  assume h: "internalAuth_cargar tok w = (Inr (Some s), w1) \<and> estado s = ACEPTADA"
  then have a: "internalAuth_cargar tok w = (Inr (Some s), w1)" and b: "estado s = ACEPTADA"
    by simp_all
  note g = internalAuth_get_tyc_accepted [OF a b, of P E ahora i d]
  note p = internalAuth_post_aceptar_accepted [OF a b, of P E ahora i d r]
  note load = internalAuth_cargar_found [OF a]
  show "status (fst (internalAuth_get_tyc P E ahora i d tok w)) = 200"
       "cache_get tok (snd (internalAuth_get_tyc P E ahora i d tok w)) = Some s"
       "enviados (snd (internalAuth_get_tyc P E ahora i d tok w)) = enviados w"
       "map (\<lambda>r. estado_col r = ACEPTADA)
          (tyc_solicitudes (snd (internalAuth_get_tyc P E ahora i d tok w)))
         = map (\<lambda>r. estado_col r = ACEPTADA) (tyc_solicitudes w)"
    using g by simp_all
  show "status (fst (internalAuth_post_aceptar P E ahora i d tok r w)) = 200"
       "answer_key (fst (internalAuth_post_aceptar P E ahora i d tok r w)) ''ok'' = Some (JBool True)"
       "cache_get tok (snd (internalAuth_post_aceptar P E ahora i d tok r w)) = Some s"
       "enviados (snd (internalAuth_post_aceptar P E ahora i d tok r w)) = enviados w"
       "tyc_solicitudes (snd (internalAuth_post_aceptar P E ahora i d tok r w)) = tyc_solicitudes w"
    using p load by simp_all
next
  assume h: "cache_get tok w = Some s \<and> estado s = ACEPTADA"
  then have a: "cache_get tok w = Some s" and b: "estado s = ACEPTADA" by simp_all
  note t = tycRoutes_accepted [OF a b, of P E ahora i]
  show "status (fst (tycRoutes_get_tyc P E ahora i tok w)) = 200"
       "snd (tycRoutes_get_tyc P E ahora i tok w) = w"
       "status (fst (tycRoutes_post_aceptar P E ahora i tok r w)) = 200"
       "answer_key (fst (tycRoutes_post_aceptar P E ahora i tok r w)) ''ok'' = Some (JBool True)"
       "snd (tycRoutes_post_aceptar P E ahora i tok r w) = w"
    using t by simp_all
next
  assume h: "cache_get tok w = Some s \<and> estado s = ACEPTADA \<and> distinct (map fst (solicitudesTyC w))"
  then have a: "cache_get tok w = Some s" and b: "estado s = ACEPTADA"
    and c: "distinct (map fst (solicitudesTyC w))" by simp_all
  show nv: "\<not> vencida ahora s" using b by (simp add: vencida_def)
  show "cache_get tok (snd (check_expired P E ahora w)) = Some s"
    using check_expired_keeps [OF c a nv] .
  show "answer_key (fst (check_expired P E ahora w)) ''expiradas''
         = Some (JNum (int (length (filter (vencida ahora) (map snd (solicitudesTyC w))))))"
    by (simp add: check_expired_spec(1) [OF c])
  show "enviados (snd (check_expired P E ahora w)) =
           enviados w @ map (aviso_expirada P E)
             (filter (\<lambda>s. \<not> falsy (webhookUrl s))
                (filter (vencida ahora) (map snd (solicitudesTyC w))))"
    by (rule check_expired_spec(3) [OF c])
  show "tyc_solicitudes (snd (check_expired P E ahora w)) = tyc_solicitudes w"
    by (rule check_expired_spec(4) [OF c])
qed

theorem C9_accepted_is_terminal_witness:
  "internalAuth_cargar ''abcd'' mundo_aceptada = (Inr (Some solicitud_aceptada), mundo_aceptada)
   \<and> cache_get ''abcd'' mundo_aceptada = Some solicitud_aceptada
   \<and> estado solicitud_aceptada = ACEPTADA
   \<and> expiresAt solicitud_aceptada < 70000
   \<and> distinct (map fst (solicitudesTyC mundo_aceptada))
   \<and> status (fst (internalAuth_get_tyc plat_ej env_ej 70000 70001 70002 ''abcd'' mundo_aceptada)) = 200
   \<and> status (fst (internalAuth_post_aceptar plat_ej env_ej 70000 70001 70002 ''abcd'' req_ej mundo_aceptada)) = 200
   \<and> status (fst (tycRoutes_get_tyc plat_ej env_ej 70000 70001 ''abcd'' mundo_aceptada)) = 200
   \<and> status (fst (tycRoutes_post_aceptar plat_ej env_ej 70000 70001 ''abcd'' req_ej mundo_aceptada)) = 200
   \<and> cache_get ''abcd'' (snd (check_expired plat_ej env_ej 70000 mundo_aceptada)) = Some solicitud_aceptada
   \<and> answer_key (fst (check_expired plat_ej env_ej 70000 mundo_aceptada)) ''expiradas'' = Some (JNum 0)
   \<and> enviados (snd (check_expired plat_ej env_ej 70000 mundo_aceptada)) = []"
proof -
  have a: "cache_get ''abcd'' mundo_aceptada = Some solicitud_aceptada"
    by (simp add: mundo_aceptada_def cache_get_def)
  have b: "internalAuth_cargar ''abcd'' mundo_aceptada = (Inr (Some solicitud_aceptada), mundo_aceptada)"
    using a by (simp add: internalAuth_cargar_def)
  have c: "estado solicitud_aceptada = ACEPTADA" "expiresAt solicitud_aceptada < 70000"
    by (simp_all add: solicitud_aceptada_def solicitud_ej_def)
  have d: "distinct (map fst (solicitudesTyC mundo_aceptada))"
    "solicitudesTyC mundo_aceptada = [(''abcd'', solicitud_aceptada)]"
    "enviados mundo_aceptada = []"
    by (simp_all add: mundo_aceptada_def)
  have e: "\<not> vencida 70000 solicitud_aceptada" using c by (simp add: vencida_def)
  show ?thesis
    using C9_accepted_is_terminal [where tok = "''abcd''" and w = mundo_aceptada
        and s = solicitud_aceptada and ?w1.0 = mundo_aceptada and P = plat_ej and E = env_ej
        and ahora = 70000 and i = 70001 and d = 70002 and r = req_ej] a b c d e
    by simp
qed

section \<open>First acceptance\<close>

text \<open>
  The accept handler of \<^verbatim>\<open>src/internalAuth.js\<close> on a first acceptance: the UPDATE writes
  exactly the rows of the token whose \<^verbatim>\<open>accepted_at\<close> is null and leaves every other row
  as it is; the map is updated after it (and not at all when it throws, see
  \<open>accept_store_failure\<close>).
\<close>

lemma set_accepted_skips:
  "token_col r \<noteq> tok \<or> accepted_at r \<noteq> None \<Longrightarrow> set_accepted tok ip_arg e d r = r"
  by (auto simp: set_accepted_def accept_matches_def)

lemma set_accepted_writes:
  "token_col r = tok \<Longrightarrow> accepted_at r = None \<Longrightarrow>
   set_accepted tok ip_arg e d r = r\<lparr>accepted_at := Some d, accepted_ip := ip_arg, estado_col := e\<rparr>"
  by (simp add: set_accepted_def accept_matches_def)

lemma internalAuth_post_aceptar_first:
  assumes "internalAuth_cargar tok w = (Inr (Some s), w1)"
      and "estado s \<noteq> ACEPTADA" and "acceptedAt s = None" and "\<not> expiresAt s < ahora"
      and "\<not> next_query_fails w1"
  shows "status (fst (internalAuth_post_aceptar P E ahora i d tok r w)) = 200"
    and "tyc_solicitudes (snd (internalAuth_post_aceptar P E ahora i d tok r w))
           = map (set_accepted tok (getClientIp r) ACEPTADA d) (tyc_solicitudes w)"
    and "cache_get tok (snd (internalAuth_post_aceptar P E ahora i d tok r w))
           = Some (s\<lparr>estado := ACEPTADA,
                     acceptedAt := Some (if filter (accept_matches tok) (tyc_solicitudes w) = []
                                         then i else d),
                     acceptedIp := getClientIp r,
                     acceptedUserAgent := or_str (user_agent r) None\<rparr>)"
    and "length (enviados (snd (internalAuth_post_aceptar P E ahora i d tok r w)))
           = length (enviados w) + (if falsy (webhookUrl s) then 0 else 1)"
  using assms internalAuth_cargar_found [OF assms(1)]
  by (auto simp: internalAuth_post_aceptar_def sql_update_accepted_eq Let_def
        split: list.splits)

text \<open>
  C3 at a record in state \<^verbatim>\<open>CREADA\<close>, accepted at 2000 before its expiry. The handler of
  \<^verbatim>\<open>src/tycRoutes.js\<close> answers success and marks the record \<^verbatim>\<open>ACEPTADA\<close> in the map, and
  the row in the table stays \<^verbatim>\<open>CREADA\<close> with \<^verbatim>\<open>accepted_at\<close> null; the handler of
  \<^verbatim>\<open>src/internalAuth.js\<close> writes state, instant and caller address into the row.
\<close>

theorem C3_tycRoutes_accept_not_persisted:
  "cache_get ''abcd'' mundo_creada = Some solicitud_ej
   \<and> tyc_solicitudes mundo_creada = [fila_ej]
   \<and> fst (tycRoutes_post_aceptar plat_ej env_ej 2000 2001 ''abcd'' req_ej mundo_creada)
       = SendJson 200 [(''ok'', JBool True),
                       (''mensaje'', JStr ''Aceptacion registrada''),
                       (''preclienteId'', JStr ''p1''),
                       (''tycSolicitudId'', JStr ''TYC-1001'')]
   \<and> map (\<lambda>(t, s). (estado s, acceptedAt s))
        (solicitudesTyC (snd (tycRoutes_post_aceptar plat_ej env_ej 2000 2001 ''abcd'' req_ej mundo_creada)))
       = [(ACEPTADA, Some 2001)]
   \<and> tyc_solicitudes (snd (tycRoutes_post_aceptar plat_ej env_ej 2000 2001 ''abcd'' req_ej mundo_creada))
       = [fila_ej]
   \<and> estado_col fila_ej = CREADA \<and> accepted_at fila_ej = None
   \<and> tyc_solicitudes
        (snd (internalAuth_post_aceptar plat_ej env_ej 2000 2001 2002 ''abcd'' req_ej mundo_creada))
       = [fila_ej\<lparr>accepted_at := Some 2002, accepted_ip := Some ''1.2.3.4'',
                  estado_col := ACEPTADA\<rparr>]"
  by (simp add: ej_all eval_defs fn_all)

section \<open>Lookup\<close>

text \<open>
  The handlers of \<^verbatim>\<open>src/internalAuth.js\<close>: a row found on a map miss is put into the map,
  and the answer is 404 exactly when the token is in neither the map nor the table (and
  the SELECT did not throw).
\<close>

lemma internalAuth_cargar_miss:
  assumes "cache_get tok w = None" and "\<not> next_query_fails w"
      and "find (\<lambda>r. token_col r = tok) (tyc_solicitudes w) = Some fila"
  shows "internalAuth_cargar tok w =
           (Inr (Some (solicitud_of_row fila)),
            cache_set tok (solicitud_of_row fila) (w\<lparr>faults := tl (faults w)\<rparr>))"
  using assms by (simp add: internalAuth_cargar_def sql_select_eq)

lemma internalAuth_not_found_iff:
  "status (fst (internalAuth_intento P E ahora i d tok a w)) = 404 \<longleftrightarrow>
     cache_get tok w = None \<and> \<not> next_query_fails w
     \<and> find (\<lambda>r. token_col r = tok) (tyc_solicitudes w) = None"
  by (cases a)
     (auto simp: internalAuth_intento_def internalAuth_get_tyc_def internalAuth_post_aceptar_def
        internalAuth_cargar_def sql_select_eq sql_update_accepted_eq error_interno_500_def Let_def
        split: option.splits if_splits list.splits)

text \<open>
  C4 at an empty map and a table that holds the row of the token. The handlers of
  \<^verbatim>\<open>src/tycRoutes.js\<close> answer 404 and leave the map empty; the read handler of
  \<^verbatim>\<open>src/internalAuth.js\<close> loads the row, puts it into the map and renders the page.
\<close>

theorem C4_tycRoutes_ignores_table:
  "cache_get ''abcd'' mundo_reiniciado = None
   \<and> find (\<lambda>r. token_col r = ''abcd'') (tyc_solicitudes mundo_reiniciado) = Some fila_ej
   \<and> tycRoutes_get_tyc plat_ej env_ej 2000 2001 ''abcd'' mundo_reiniciado
       = (Send 404 Enlace_invalido, mundo_reiniciado)
   \<and> tycRoutes_post_aceptar plat_ej env_ej 2000 2001 ''abcd'' req_ej mundo_reiniciado
       = (SendJson 404 [(''ok'', JBool False), (''error'', JStr ''Solicitud no encontrada'')],
          mundo_reiniciado)
   \<and> fst (internalAuth_get_tyc plat_ej env_ej 2000 2001 2002 ''abcd'' mundo_reiniciado)
       = Send 200 (Pagina (JStr ''p1'') 61000 ''abcd'' (Some False))
   \<and> map fst (solicitudesTyC
        (snd (internalAuth_get_tyc plat_ej env_ej 2000 2001 2002 ''abcd'' mundo_reiniciado)))
       = [''abcd'']"
  by (simp add: ej_all eval_defs)

section \<open>The sweep and the table\<close>

text \<open>
  C5 at two \<^verbatim>\<open>CREADA\<close> records and one \<^verbatim>\<open>ACEPTADA\<close> record, all past \<^verbatim>\<open>expiresAt\<close>. The
  cron handler answers \<^verbatim>\<open>expiradas = 2\<close>, marks the two records \<^verbatim>\<open>EXPIRADA\<close> in the map,
  sends two requests and leaves the accepted record alone, but the rows of the table
  stay \<^verbatim>\<open>CREADA\<close>: the transition is not persisted. The read handler of
  \<^verbatim>\<open>src/internalAuth.js\<close> persists the same transition. Once the map is lost, a read
  loads the \<^verbatim>\<open>CREADA\<close> row, expires the record again and sends a third request.
\<close>

theorem C5_sweep_not_persisted:
  "map (\<lambda>(t, s). (estado s, expiresAt s < 70000)) (solicitudesTyC mundo_barrido)
     = [(CREADA, True), (CREADA, True), (ACEPTADA, True)]
   \<and> map estado_col (tyc_solicitudes mundo_barrido) = [CREADA, CREADA, ACEPTADA]
   \<and> fst (check_expired plat_ej env_ej 70000 mundo_barrido)
       = SendJson 200 [(''ok'', JBool True), (''expiradas'', JNum 2)]
   \<and> map (\<lambda>(t, s). estado s) (solicitudesTyC (snd (check_expired plat_ej env_ej 70000 mundo_barrido)))
       = [EXPIRADA, EXPIRADA, ACEPTADA]
   \<and> length (enviados (snd (check_expired plat_ej env_ej 70000 mundo_barrido))) = 2
   \<and> map estado_col (tyc_solicitudes (snd (check_expired plat_ej env_ej 70000 mundo_barrido)))
       = [CREADA, CREADA, ACEPTADA]
   \<and> map estado_col
       (tyc_solicitudes (snd (internalAuth_get_tyc plat_ej env_ej 70000 70001 70002 ''t1'' mundo_barrido)))
       = [EXPIRADA, CREADA, ACEPTADA]
   \<and> length (enviados (snd (internalAuth_get_tyc plat_ej env_ej 80000 80001 80002 ''t1''
        ((snd (check_expired plat_ej env_ej 70000 mundo_barrido))\<lparr>solicitudesTyC := []\<rparr>)))) = 3"
  by (simp add: ej_all eval_defs fn_all)

section \<open>Webhook dispatch\<close>

lemma webhook_post_from_sendWebhook:
  "\<not> falsy (webhookUrl s) \<Longrightarrow> from_sendWebhook P E (webhook_post P E s ev)"
  by (simp add: from_sendWebhook_def webhook_post_def webhook_payload_def Let_def)

lemma sendWebhook_keeps_signed:
  "list_all (from_sendWebhook P E) (enviados w) \<Longrightarrow>
   list_all (from_sendWebhook P E) (enviados (sendWebhook P E s ev w))"
  by (simp add: webhook_post_from_sendWebhook)

lemma internalAuth_expirar_keeps_signed:
  "list_all (from_sendWebhook P E) (enviados w) \<Longrightarrow>
   list_all (from_sendWebhook P E) (enviados (internalAuth_expirar P E tok s msg w))"
  by (simp add: internalAuth_expirar_def sql_update_estado_eq Let_def
        webhook_post_from_sendWebhook)

lemma internalAuth_intento_keeps_signed:
  assumes "list_all (from_sendWebhook P E) (enviados w)"
  shows "list_all (from_sendWebhook P E)
           (enviados (snd (internalAuth_intento P E ahora i d tok a w)))"
proof -
  obtain res w1 where ld: "internalAuth_cargar tok w = (res, w1)"
    by (cases "internalAuth_cargar tok w")
  have e1: "enviados w1 = enviados w"
    using internalAuth_cargar_enviados [of tok w] ld by simp
  then have s1: "list_all (from_sendWebhook P E) (enviados w1)" using assms by simp
  show ?thesis
    using ld s1 internalAuth_expirar_keeps_signed [OF s1]
    by (cases a)
       (auto simp: internalAuth_intento_def internalAuth_get_tyc_def internalAuth_post_aceptar_def
          sql_update_opened_eq sql_update_accepted_eq error_interno_500_def Let_def
          webhook_post_from_sendWebhook
          split: sum.splits option.splits list.splits)
qed

lemma tycRoutes_intento_keeps_signed:
  assumes "list_all (from_sendWebhook P E) (enviados w)"
  shows "list_all (from_sendWebhook P E)
           (enviados (snd (tycRoutes_intento P E ahora i tok a w)))"
  using assms
  by (cases a)
     (auto simp: tycRoutes_intento_def tycRoutes_get_tyc_def tycRoutes_post_aceptar_def Let_def
        webhook_post_from_sendWebhook split: option.splits)

lemma check_expired_loop_keeps_signed:
  "list_all (from_sendWebhook P E) (enviados w) \<Longrightarrow>
   list_all (from_sendWebhook P E) (enviados (snd (check_expired_loop P E ahora ts c w)))"
  by (induction ts arbitrary: c w)
     (auto simp: webhook_post_from_sendWebhook split: option.splits)

lemma post_check_expired_keeps_signed:
  "list_all (from_sendWebhook P E) (enviados w) \<Longrightarrow>
   list_all (from_sendWebhook P E) (enviados (snd (post_check_expired P E incoming ahora w)))"
  using check_expired_loop_keeps_signed [of P E w ahora "map fst (solicitudesTyC w)" 0]
  by (auto simp: post_check_expired_def requireInternalSecret_def check_expired_def
        split: option.splits prod.splits)

lemma post_solicitudes_enviados:
  "enviados (snd (post_solicitudes P E ahora dn tk body w)) = enviados w"
  by (simp add: post_solicitudes_def sql_insert_eq Let_def)

text \<open>
  C6. A record without \<^verbatim>\<open>webhookUrl\<close> sends nothing. Otherwise \<^verbatim>\<open>sendWebhook\<close>
  issues exactly one POST to \<^verbatim>\<open>webhookUrl\<close>, whose body carries the event name,
  \<^verbatim>\<open>preclienteId\<close>, \<^verbatim>\<open>tycSolicitudId\<close>, the current state, \<^verbatim>\<open>createdAt\<close>,
  \<^verbatim>\<open>expiresAt\<close>, \<^verbatim>\<open>openedAt\<close> or null and \<^verbatim>\<open>acceptedAt\<close> or null, and whose
  signature header is the HMAC-SHA256 of the serialised body under
  \<^verbatim>\<open>WEBHOOK_SECRET\<close>, or under \<^verbatim>\<open>default_secret\<close> when that variable is unset or empty.
  Every request sent by a read, an accept or the cron handler of either file is of that
  form, and the creation handler sends none.
\<close>

theorem C6_sendWebhook:
  "(falsy (webhookUrl s) \<longrightarrow>
      enviados (sendWebhook P E s evento w) = enviados w)
   \<and> (\<not> falsy (webhookUrl s) \<longrightarrow>
      (\<exists>p. enviados (sendWebhook P E s evento w) = enviados w @ [p]
        \<and> url p = webhookUrl s
        \<and> data p = JObj [(''evento'', JStr evento),
                         (''preclienteId'', preclienteId s),
                         (''tycSolicitudId'', JStr (tycSolicitudId s)),
                         (''estado'', JStr (estado_str (estado s))),
                         (''createdAt'', JIso (createdAt s)),
                         (''expiresAt'', JIso (expiresAt s)),
                         (''openedAt'', (case openedAt s of None \<Rightarrow> JNull | Some t \<Rightarrow> JIso t)),
                         (''acceptedAt'', (case acceptedAt s of None \<Rightarrow> JNull | Some t \<Rightarrow> JIso t))]
        \<and> map_of (headers p) ''X-AMA-Event'' = Some evento
        \<and> map_of (headers p) ''X-AMA-Signature'' =
            Some (hmac_sha256 P
                   (case WEBHOOK_SECRET E of
                      None \<Rightarrow> ''default_secret''
                    | Some k \<Rightarrow> if k = [] then ''default_secret'' else k)
                   (JSON_stringify P (data p)))))
   \<and> (list_all (from_sendWebhook P E) (enviados w) \<longrightarrow>
        list_all (from_sendWebhook P E)
          (enviados (snd (internalAuth_intento P E ahora i d tok a w)))
      \<and> list_all (from_sendWebhook P E)
          (enviados (snd (tycRoutes_intento P E ahora i tok a w)))
      \<and> list_all (from_sendWebhook P E)
          (enviados (snd (post_check_expired P E incoming ahora w)))
      \<and> enviados (snd (post_solicitudes P E ahora dn tk body w)) = enviados w)"
proof (intro conjI impI)
  show "enviados (sendWebhook P E s evento w) = enviados w" if "falsy (webhookUrl s)"
    using that by simp
  show "\<exists>p. enviados (sendWebhook P E s evento w) = enviados w @ [p]
        \<and> url p = webhookUrl s
        \<and> data p = JObj [(''evento'', JStr evento),
                         (''preclienteId'', preclienteId s),
                         (''tycSolicitudId'', JStr (tycSolicitudId s)),
                         (''estado'', JStr (estado_str (estado s))),
                         (''createdAt'', JIso (createdAt s)),
                         (''expiresAt'', JIso (expiresAt s)),
                         (''openedAt'', (case openedAt s of None \<Rightarrow> JNull | Some t \<Rightarrow> JIso t)),
                         (''acceptedAt'', (case acceptedAt s of None \<Rightarrow> JNull | Some t \<Rightarrow> JIso t))]
        \<and> map_of (headers p) ''X-AMA-Event'' = Some evento
        \<and> map_of (headers p) ''X-AMA-Signature'' =
            Some (hmac_sha256 P
                   (case WEBHOOK_SECRET E of
                      None \<Rightarrow> ''default_secret''
                    | Some k \<Rightarrow> if k = [] then ''default_secret'' else k)
                   (JSON_stringify P (data p)))"
    if "\<not> falsy (webhookUrl s)"
    using that
    by (simp add: sendWebhook_def console_def webhook_post_def webhook_payload_def
          webhook_secret_def iso_or_null_def Let_def)
next
  assume inv: "list_all (from_sendWebhook P E) (enviados w)"
  show "list_all (from_sendWebhook P E)
          (enviados (snd (internalAuth_intento P E ahora i d tok a w)))"
    using inv by (rule internalAuth_intento_keeps_signed)
  show "list_all (from_sendWebhook P E)
          (enviados (snd (tycRoutes_intento P E ahora i tok a w)))"
    using inv by (rule tycRoutes_intento_keeps_signed)
  show "list_all (from_sendWebhook P E)
          (enviados (snd (post_check_expired P E incoming ahora w)))"
    using inv by (rule post_check_expired_keeps_signed)
  show "enviados (snd (post_solicitudes P E ahora dn tk body w)) = enviados w"
    by (rule post_solicitudes_enviados)
qed

theorem C6_sendWebhook_witness:
  "\<not> falsy (webhookUrl solicitud_ej)
   \<and> falsy (webhookUrl (solicitud_ej\<lparr>webhookUrl := JNull\<rparr>))
   \<and> list_all (from_sendWebhook plat_ej env_ej) (enviados mundo_creada)
   \<and> enviados (sendWebhook plat_ej env_ej (solicitud_ej\<lparr>webhookUrl := JNull\<rparr>)
        ''TYC_EXPIRADA'' mundo_creada) = []
   \<and> map (\<lambda>p. map_of (headers p) ''X-AMA-Signature'')
        (enviados (sendWebhook plat_ej env_ej solicitud_ej ''TYC_EXPIRADA'' mundo_creada))
      = [Some ''default_secret|json'']
   \<and> list_all (from_sendWebhook plat_ej env_ej)
        (enviados (snd (internalAuth_intento plat_ej env_ej 70000 70001 70002 ''abcd'' Leer
           mundo_creada)))"
proof -
  have a: "\<not> falsy (webhookUrl solicitud_ej)"
      "falsy (webhookUrl (solicitud_ej\<lparr>webhookUrl := JNull\<rparr>))"
      "list_all (from_sendWebhook plat_ej env_ej) (enviados mundo_creada)"
      "enviados mundo_creada = []"
    by (simp_all add: solicitud_ej_def mundo_creada_def)
  note live = C6_sendWebhook [where s = solicitud_ej and P = plat_ej and E = env_ej
      and evento = "''TYC_EXPIRADA''" and w = mundo_creada and ahora = 70000 and i = 70001
      and d = 70002 and tok = "''abcd''" and a = Leer]
  note mute = C6_sendWebhook [where s = "solicitud_ej\<lparr>webhookUrl := JNull\<rparr>" and P = plat_ej
      and E = env_ej and evento = "''TYC_EXPIRADA''" and w = mundo_creada]
  have sig: "hmac_sha256 plat_ej ''default_secret'' (JSON_stringify plat_ej j) = ''default_secret|json''"
    for j by (simp add: plat_ej_def)
  have sec: "WEBHOOK_SECRET env_ej = None" by (simp add: env_ej_def)
  show ?thesis using live mute a sig sec by auto
qed

text \<open>
  C7, as the code has it: the request \<^verbatim>\<open>sendWebhook\<close> issues does not depend on the
  metadata of the record, and the payload has exactly eight keys, none of them the
  metadata.
\<close>

theorem C7_webhook_ignores_metadata:
  "sendWebhook P E (s\<lparr>metadata := m\<rparr>) evento w = sendWebhook P E s evento w
   \<and> (\<exists>kvs. webhook_payload s evento = JObj kvs
          \<and> map fst kvs = [''evento'', ''preclienteId'', ''tycSolicitudId'', ''estado'',
                            ''createdAt'', ''expiresAt'', ''openedAt'', ''acceptedAt''])"
  by (simp add: sendWebhook_def webhook_post_def webhook_payload_def Let_def)

text \<open>
  C7 as stated fails: a request created with metadata \<^verbatim>\<open>{k: v}\<close> and then accepted sends
  one \<^verbatim>\<open>TYC_ACEPTADA\<close> request, whose body does not contain the metadata.
\<close>

theorem C7_metadata_not_echoed_counterexample:
  "enviados (snd (internalAuth_post_aceptar plat_ej env_ej 2000 2001 2002 ''abcd'' req_ej
       (snd (post_solicitudes plat_ej env_ej 1000 1001 ''abcd'' body_ej mundo_vacio))))
     = [webhook_post plat_ej env_ej
          (solicitud_ej\<lparr>estado := ACEPTADA, acceptedAt := Some 2002,
             acceptedIp := Some ''1.2.3.4'', acceptedUserAgent := Some ''UA''\<rparr>) ''TYC_ACEPTADA'']
   \<and> metadata (solicitud_ej\<lparr>estado := ACEPTADA, acceptedAt := Some 2002,
             acceptedIp := Some ''1.2.3.4'', acceptedUserAgent := Some ''UA''\<rparr>)
       = JObj [(''k'', JStr ''v'')]
   \<and> \<not> carries_metadata
         (solicitud_ej\<lparr>estado := ACEPTADA, acceptedAt := Some 2002,
             acceptedIp := Some ''1.2.3.4'', acceptedUserAgent := Some ''UA''\<rparr>)
         (webhook_post plat_ej env_ej
          (solicitud_ej\<lparr>estado := ACEPTADA, acceptedAt := Some 2002,
             acceptedIp := Some ''1.2.3.4'', acceptedUserAgent := Some ''UA''\<rparr>) ''TYC_ACEPTADA'')"
  by (simp add: ej_all eval_defs post_solicitudes_def field_def ttl_minutos_def max_date_def
        show_int_def dec.simps digit_def getClientIp_def trim_def is_space_def startsWith_def
        carries_metadata_def)

section \<open>Failures of the table\<close>

lemma creation_store_failure:
  assumes "\<not> falsy (field body ''preclienteId'')" and "\<not> falsy (field body ''webhookUrl'')"
      and "ahora + ttl_minutos body * 60 * 1000 \<le> max_date"
      and "next_query_fails w"
  shows "post_solicitudes P E ahora dn tk body w =
           (SendJson 500 [(''ok'', JBool False),
                          (''error'', JStr ''Error guardando la solicitud de TyC en la base de datos'')],
            console ''[TyC] Error guardando solicitud en BD:'' (w\<lparr>faults := tl (faults w)\<rparr>))"
  using assms by (simp add: post_solicitudes_def sql_insert_eq Let_def)

lemma accept_store_failure:
  assumes "internalAuth_cargar tok w = (Inr (Some s), w1)"
      and "estado s \<noteq> ACEPTADA" and "acceptedAt s = None" and "\<not> expiresAt s < ahora"
      and "next_query_fails w1"
  shows "internalAuth_post_aceptar P E ahora i d tok r w =
           error_interno_500 (w1\<lparr>faults := tl (faults w1)\<rparr>)"
  using assms by (simp add: internalAuth_post_aceptar_def sql_update_accepted_eq Let_def)

lemma opened_store_failure:
  assumes "internalAuth_cargar tok w = (Inr (Some s), w1)"
      and "\<not> expiresAt s < ahora \<or> estado s = ACEPTADA"
      and "next_query_fails w1"
  shows "fst (internalAuth_get_tyc P E ahora i d tok w) =
           Send 200 (Pagina (preclienteId s) (expiresAt s) tok (Some (estado s = ACEPTADA)))"
    and "consola (snd (internalAuth_get_tyc P E ahora i d tok w)) =
           consola w @ [''[TyC] Error actualizando opened_at/estado en BD:'']"
    and "tyc_solicitudes (snd (internalAuth_get_tyc P E ahora i d tok w)) = tyc_solicitudes w"
  using assms internalAuth_cargar_found [OF assms(1)]
  by (auto simp: internalAuth_get_tyc_def sql_update_opened_eq Let_def)

text \<open>
  C8, as the code has it. When the INSERT of the creation throws, the answer is 500 and
  neither map nor table changes. When the conditional UPDATE of a first acceptance
  throws, the answer is 500, the record in the map stays as loaded and nothing is sent.
  When the UPDATE of the expiry branch throws, the read or accept attempt gives the same
  410 answer as otherwise, marks the record \<^verbatim>\<open>EXPIRADA\<close> in the map, sends the
  notification and writes the failure to the console. When the opened-at UPDATE throws,
  the read renders the page and writes the failure to the console.
\<close>

theorem C8_store_failures:
  "(\<not> falsy (field body ''preclienteId'') \<and> \<not> falsy (field body ''webhookUrl'')
      \<and> ahora + ttl_minutos body * 60 * 1000 \<le> max_date \<and> next_query_fails w0
    \<longrightarrow> status (fst (post_solicitudes P E ahora dn tk body w0)) = 500
      \<and> answer_key (fst (post_solicitudes P E ahora dn tk body w0)) ''ok'' = Some (JBool False)
      \<and> solicitudesTyC (snd (post_solicitudes P E ahora dn tk body w0)) = solicitudesTyC w0
      \<and> tyc_solicitudes (snd (post_solicitudes P E ahora dn tk body w0)) = tyc_solicitudes w0)
   \<and> (internalAuth_cargar tok w = (Inr (Some s), w1) \<and> next_query_fails w1 \<longrightarrow>
        (estado s \<noteq> ACEPTADA \<and> acceptedAt s = None \<and> \<not> expiresAt s < ahora
         \<longrightarrow> status (fst (internalAuth_post_aceptar P E ahora i d tok r w)) = 500
           \<and> answer_key (fst (internalAuth_post_aceptar P E ahora i d tok r w)) ''ok'' = Some (JBool False)
           \<and> cache_get tok (snd (internalAuth_post_aceptar P E ahora i d tok r w)) = Some s
           \<and> enviados (snd (internalAuth_post_aceptar P E ahora i d tok r w)) = enviados w
           \<and> tyc_solicitudes (snd (internalAuth_post_aceptar P E ahora i d tok r w)) = tyc_solicitudes w)
      \<and> ((estado s = CREADA \<or> estado s = ABIERTA) \<and> expiresAt s < ahora
         \<longrightarrow> fst (internalAuth_intento P E ahora i d tok a w) =
               (case a of
                  Leer \<Rightarrow> Send 410 Enlace_expirado
                | Aceptar r' \<Rightarrow>
                    SendJson 410 [(''ok'', JBool False),
                                  (''error'', JStr ''La URL ya expiro. Solicita una nueva.'')])
           \<and> cache_get tok (snd (internalAuth_intento P E ahora i d tok a w))
               = Some (s\<lparr>estado := EXPIRADA\<rparr>)
           \<and> enviados (snd (internalAuth_intento P E ahora i d tok a w))
               = enviados w @ (if falsy (webhookUrl s) then [] else [aviso_expirada P E s])
           \<and> tyc_solicitudes (snd (internalAuth_intento P E ahora i d tok a w)) = tyc_solicitudes w
           \<and> consola (snd (internalAuth_intento P E ahora i d tok a w)) =
               consola w @ [case a of
                              Leer \<Rightarrow> ''[TyC] Error actualizando estado EXPIRADA en BD:''
                            | Aceptar r' \<Rightarrow> ''[TyC] Error actualizando EXPIRADA en BD (POST /aceptar):'']
                         @ (if falsy (webhookUrl s)
                            then [''No hay webhookUrl configurado en la solicitud, no se envia nada.'']
                            else []))
      \<and> (\<not> expiresAt s < ahora \<or> estado s = ACEPTADA
         \<longrightarrow> fst (internalAuth_get_tyc P E ahora i d tok w) =
               Send 200 (Pagina (preclienteId s) (expiresAt s) tok (Some (estado s = ACEPTADA)))
           \<and> consola (snd (internalAuth_get_tyc P E ahora i d tok w)) =
               consola w @ [''[TyC] Error actualizando opened_at/estado en BD:'']
           \<and> tyc_solicitudes (snd (internalAuth_get_tyc P E ahora i d tok w)) = tyc_solicitudes w))"
proof (intro conjI impI)
  assume "\<not> falsy (field body ''preclienteId'') \<and> \<not> falsy (field body ''webhookUrl'')
      \<and> ahora + ttl_minutos body * 60 * 1000 \<le> max_date \<and> next_query_fails w0"
  then have eq: "post_solicitudes P E ahora dn tk body w0 =
           (SendJson 500 [(''ok'', JBool False),
                          (''error'', JStr ''Error guardando la solicitud de TyC en la base de datos'')],
            console ''[TyC] Error guardando solicitud en BD:'' (w0\<lparr>faults := tl (faults w0)\<rparr>))"
    by (simp add: creation_store_failure)
  show "status (fst (post_solicitudes P E ahora dn tk body w0)) = 500"
       "answer_key (fst (post_solicitudes P E ahora dn tk body w0)) ''ok'' = Some (JBool False)"
       "solicitudesTyC (snd (post_solicitudes P E ahora dn tk body w0)) = solicitudesTyC w0"
       "tyc_solicitudes (snd (post_solicitudes P E ahora dn tk body w0)) = tyc_solicitudes w0"
    by (simp_all add: eq)
next
  assume ld: "internalAuth_cargar tok w = (Inr (Some s), w1) \<and> next_query_fails w1"
     and st: "estado s \<noteq> ACEPTADA \<and> acceptedAt s = None \<and> \<not> expiresAt s < ahora"
  have eq: "internalAuth_post_aceptar P E ahora i d tok r w =
           error_interno_500 (w1\<lparr>faults := tl (faults w1)\<rparr>)"
    using ld st by (simp add: accept_store_failure)
  note load = internalAuth_cargar_found [of tok w s w1]
  show "status (fst (internalAuth_post_aceptar P E ahora i d tok r w)) = 500"
       "answer_key (fst (internalAuth_post_aceptar P E ahora i d tok r w)) ''ok'' = Some (JBool False)"
       "cache_get tok (snd (internalAuth_post_aceptar P E ahora i d tok r w)) = Some s"
       "enviados (snd (internalAuth_post_aceptar P E ahora i d tok r w)) = enviados w"
       "tyc_solicitudes (snd (internalAuth_post_aceptar P E ahora i d tok r w)) = tyc_solicitudes w"
    using ld load by (simp_all add: eq error_interno_500_def)
next
  assume ld: "internalAuth_cargar tok w = (Inr (Some s), w1) \<and> next_query_fails w1"
     and st: "(estado s = CREADA \<or> estado s = ABIERTA) \<and> expiresAt s < ahora"
  have ne: "estado s \<noteq> ACEPTADA" "estado s \<noteq> EXPIRADA" using st by auto
  note load = internalAuth_cargar_found [of tok w s w1]
  note stale = internalAuth_intento_stale [of tok w s w1 ahora P E i d a]
  show "fst (internalAuth_intento P E ahora i d tok a w) =
               (case a of
                  Leer \<Rightarrow> Send 410 Enlace_expirado
                | Aceptar r' \<Rightarrow>
                    SendJson 410 [(''ok'', JBool False),
                                  (''error'', JStr ''La URL ya expiro. Solicita una nueva.'')])"
    using ld st ne
    by (simp add: internalAuth_intento_def internalAuth_get_tyc_def
          internalAuth_post_aceptar_def split: intento.splits)
  show "cache_get tok (snd (internalAuth_intento P E ahora i d tok a w))
               = Some (s\<lparr>estado := EXPIRADA\<rparr>)"
    using ld st ne stale by (simp add: internalAuth_expirar_fresh)
  show "enviados (snd (internalAuth_intento P E ahora i d tok a w))
               = enviados w @ (if falsy (webhookUrl s) then [] else [aviso_expirada P E s])"
    using ld st ne stale load by (simp add: internalAuth_expirar_fresh)
  show "tyc_solicitudes (snd (internalAuth_intento P E ahora i d tok a w)) = tyc_solicitudes w"
    using ld st ne stale load by (simp add: internalAuth_expirar_fresh)
  show "consola (snd (internalAuth_intento P E ahora i d tok a w)) =
               consola w @ [case a of
                              Leer \<Rightarrow> ''[TyC] Error actualizando estado EXPIRADA en BD:''
                            | Aceptar r' \<Rightarrow> ''[TyC] Error actualizando EXPIRADA en BD (POST /aceptar):'']
                         @ (if falsy (webhookUrl s)
                            then [''No hay webhookUrl configurado en la solicitud, no se envia nada.'']
                            else [])"
    using ld st ne stale load by (simp add: internalAuth_expirar_fresh)
next
  assume ld: "internalAuth_cargar tok w = (Inr (Some s), w1) \<and> next_query_fails w1"
     and st: "\<not> expiresAt s < ahora \<or> estado s = ACEPTADA"
  from ld have a: "internalAuth_cargar tok w = (Inr (Some s), w1)" and b: "next_query_fails w1"
    by simp_all
  show "fst (internalAuth_get_tyc P E ahora i d tok w) =
               Send 200 (Pagina (preclienteId s) (expiresAt s) tok (Some (estado s = ACEPTADA)))"
       "consola (snd (internalAuth_get_tyc P E ahora i d tok w)) =
               consola w @ [''[TyC] Error actualizando opened_at/estado en BD:'']"
       "tyc_solicitudes (snd (internalAuth_get_tyc P E ahora i d tok w)) = tyc_solicitudes w"
    using opened_store_failure [OF a st b] by simp_all
qed

theorem C8_store_failures_witness:
  "\<not> falsy (field body_ej ''preclienteId'') \<and> \<not> falsy (field body_ej ''webhookUrl'')
   \<and> 1000 + ttl_minutos body_ej * 60 * 1000 \<le> max_date
   \<and> next_query_fails mundo_caido
   \<and> internalAuth_cargar ''abcd'' mundo_caido = (Inr (Some solicitud_ej), mundo_caido)
   \<and> estado solicitud_ej = CREADA \<and> acceptedAt solicitud_ej = None
   \<and> \<not> expiresAt solicitud_ej < 1000 \<and> expiresAt solicitud_ej < 70000
   \<and> status (fst (post_solicitudes plat_ej env_ej 1000 1001 ''ef01'' body_ej mundo_caido)) = 500
   \<and> status (fst (internalAuth_post_aceptar plat_ej env_ej 1000 1001 1002 ''abcd'' req_ej mundo_caido)) = 500
   \<and> fst (internalAuth_intento plat_ej env_ej 70000 70001 70002 ''abcd'' Leer mundo_caido)
       = Send 410 Enlace_expirado
   \<and> fst (internalAuth_get_tyc plat_ej env_ej 1000 1001 1002 ''abcd'' mundo_caido)
       = Send 200 (Pagina (JStr ''p1'') 61000 ''abcd'' (Some False))"
proof -
  have a: "\<not> falsy (field body_ej ''preclienteId'')" "\<not> falsy (field body_ej ''webhookUrl'')"
    "1000 + ttl_minutos body_ej * 60 * 1000 \<le> max_date"
    by (simp_all add: body_ej_def field_def ttl_minutos_def max_date_def)
  have b: "next_query_fails mundo_caido"
    by (simp add: mundo_caido_def next_query_fails_def)
  have c: "internalAuth_cargar ''abcd'' mundo_caido = (Inr (Some solicitud_ej), mundo_caido)"
    by (simp add: mundo_caido_def mundo_creada_def internalAuth_cargar_def cache_get_def)
  have d: "estado solicitud_ej = CREADA" "acceptedAt solicitud_ej = None"
    "\<not> expiresAt solicitud_ej < 1000" "expiresAt solicitud_ej < 70000"
    "preclienteId solicitud_ej = JStr ''p1''" "expiresAt solicitud_ej = 61000"
    by (simp_all add: solicitud_ej_def)
  note early = C8_store_failures [where body = body_ej and ahora = 1000 and ?w0.0 = mundo_caido
      and P = plat_ej and E = env_ej and dn = 1001 and tk = "''ef01''" and tok = "''abcd''"
      and w = mundo_caido and s = solicitud_ej and ?w1.0 = mundo_caido and i = 1001 and d = 1002
      and r = req_ej and a = Leer]
  note late = C8_store_failures [where body = body_ej and ahora = 70000 and ?w0.0 = mundo_caido
      and P = plat_ej and E = env_ej and dn = 1001 and tk = "''ef01''" and tok = "''abcd''"
      and w = mundo_caido and s = solicitud_ej and ?w1.0 = mundo_caido and i = 70001 and d = 70002
      and r = req_ej and a = Leer]
  show ?thesis using early late a b c d by simp
qed

text \<open>
  C8 as stated fails for the expiration write: with the UPDATE throwing, the accept
  attempt on an expired record answers the ordinary 410, the same answer as when the
  UPDATE succeeds, and goes on to send the notification.
\<close>

theorem C8_expiry_soft_fails_counterexample:
  "next_query_fails mundo_caido
   \<and> internalAuth_post_aceptar plat_ej env_ej 70000 70001 70002 ''abcd'' req_ej mundo_caido
     = (SendJson 410 [(''ok'', JBool False),
                      (''error'', JStr ''La URL ya expiro. Solicita una nueva.'')],
        \<lparr>solicitudesTyC = [(''abcd'', solicitud_ej\<lparr>estado := EXPIRADA\<rparr>)],
         tyc_solicitudes = [fila_ej],
         faults = [],
         enviados = [aviso_expirada plat_ej env_ej solicitud_ej],
         consola = [''[TyC] Error actualizando EXPIRADA en BD (POST /aceptar):'']\<rparr>)
   \<and> fst (internalAuth_post_aceptar plat_ej env_ej 70000 70001 70002 ''abcd'' req_ej mundo_creada)
     = SendJson 410 [(''ok'', JBool False),
                      (''error'', JStr ''La URL ya expiro. Solicita una nueva.'')]"
  by (simp add: plat_ej_def env_ej_def solicitud_ej_def fila_ej_def mundo_creada_def
        mundo_caido_def req_ej_def eval_defs)

section \<open>Creation\<close>

lemma updates_keep_token:
  "token_col (set_estado tok e r) = token_col r"
  "token_col (set_opened tok d r) = token_col r"
  "token_col (set_accepted tok ip_arg e d r) = token_col r"
  "token_hash (set_estado tok e r) = token_hash r"
  "token_hash (set_opened tok d r) = token_hash r"
  "token_hash (set_accepted tok ip_arg e d r) = token_hash r"
  by (simp_all add: set_estado_def set_opened_def set_accepted_def)

text \<open>
  C10. A creation that passes the validation and whose INSERT succeeds appends one row
  to the table whose \<^verbatim>\<open>token\<close> column is the raw token and whose \<^verbatim>\<open>token_hash\<close> column
  is its SHA-256 digest, and answers 200 with the raw token under \<^verbatim>\<open>token\<close>. No UPDATE
  of the handlers changes either column.
\<close>

theorem C10_raw_token_stored:
  assumes "\<not> falsy (field body ''preclienteId'')" and "\<not> falsy (field body ''webhookUrl'')"
      and "ahora + ttl_minutos body * 60 * 1000 \<le> max_date"
      and "\<not> next_query_fails w"
  shows "status (fst (post_solicitudes P E ahora dn random_hex body w)) = 200
       \<and> answer_key (fst (post_solicitudes P E ahora dn random_hex body w)) ''token''
           = Some (JStr random_hex)
       \<and> (\<exists>fila. tyc_solicitudes (snd (post_solicitudes P E ahora dn random_hex body w))
                    = tyc_solicitudes w @ [fila]
              \<and> token_col fila = random_hex
              \<and> token_hash fila = sha256 P random_hex)
       \<and> token_col (set_estado tok e r) = token_col r
       \<and> token_col (set_opened tok d r) = token_col r
       \<and> token_col (set_accepted tok ip_arg e d r) = token_col r"
  using assms
  by (simp add: post_solicitudes_def sql_insert_eq Let_def cache_set_def updates_keep_token)

theorem C10_raw_token_stored_witness:
  "\<not> falsy (field body_ej ''preclienteId'') \<and> \<not> falsy (field body_ej ''webhookUrl'')
   \<and> 1000 + ttl_minutos body_ej * 60 * 1000 \<le> max_date
   \<and> \<not> next_query_fails mundo_vacio
   \<and> answer_key (fst (post_solicitudes plat_ej env_ej 1000 1001 ''abcd'' body_ej mundo_vacio)) ''token''
       = Some (JStr ''abcd'')
   \<and> map token_col (tyc_solicitudes (snd (post_solicitudes plat_ej env_ej 1000 1001 ''abcd'' body_ej mundo_vacio)))
       = [''abcd'']
   \<and> map token_hash (tyc_solicitudes (snd (post_solicitudes plat_ej env_ej 1000 1001 ''abcd'' body_ej mundo_vacio)))
       = [''h:abcd'']"
proof -
  have a: "\<not> falsy (field body_ej ''preclienteId'')" and b: "\<not> falsy (field body_ej ''webhookUrl'')"
    and c: "1000 + ttl_minutos body_ej * 60 * 1000 \<le> max_date"
    and d: "\<not> next_query_fails mundo_vacio"
    by (simp_all add: body_ej_def field_def ttl_minutos_def max_date_def next_query_fails_def
          mundo_vacio_def)
  have e: "tyc_solicitudes mundo_vacio = []" "sha256 plat_ej ''abcd'' = ''h:abcd''"
    by (simp_all add: mundo_vacio_def plat_ej_def)
  show ?thesis
    using C10_raw_token_stored [OF a b c d, where P = plat_ej and E = env_ej and dn = 1001
        and random_hex = "''abcd''" and tok = "''abcd''" and e = EXPIRADA and r = fila_ej
        and d = 0 and ip_arg = None] a b c d e
    by auto
qed

end
